theory Spec2Isabelle
  imports Complex_Main "HOL-Library.AList"
begin

section \<open>The 21cmFAST wrapper: parameter structures\<close>

text \<open>
  A shallow embedding of \<^verbatim>\<open>src/py21cmmc/_21cmfast/wrapper.py\<close>.

  Python exceptions are values of \<open>exn\<close>; a computation that may raise returns
  \<open>exn + 'a\<close> with \<open>Inl\<close> for the exception. Python numbers are \<open>int\<close> where the
  source means an integer (grid sizes, the seed) and \<open>real\<close> where it means a float;
  rounding and overflow of floats are not part of the model. An attribute whose default
  is \<^verbatim>\<open>None\<close> is an \<open>option\<close>. The classes store a default under a hidden name
  (\<^verbatim>\<open>_DIM\<close>, \<^verbatim>\<open>_RANDOM_SEED\<close>, ...) when a property of the public name exists; the
  hidden attribute \<^verbatim>\<open>_X\<close> is the record field \<open>hidden_X\<close> here.
\<close>

datatype exn = IOError | ValueError | NotImplementedError | AttributeError | TypeError | MemoryError

subsection \<open>Truthiness\<close>

text \<open>Python's truth value of an optional number: \<^verbatim>\<open>None\<close> and zero are false.\<close>

definition truthy_int :: "int option \<Rightarrow> bool" where
  "truthy_int v = (case v of None \<Rightarrow> False | Some n \<Rightarrow> n \<noteq> 0)"

definition truthy_real :: "real option \<Rightarrow> bool" where
  "truthy_real v = (case v of None \<Rightarrow> False | Some x \<Rightarrow> x \<noteq> 0)"

subsection \<open>CosmoParams\<close>

record CosmoParams =
  hidden_RANDOM_SEED :: "int option"
  SIGMA_8 :: real
  hlittle :: real
  OMm :: real
  OMb :: real
  POWER_INDEX :: real

text \<open>
  The defaults. \<^verbatim>\<open>Planck15.h\<close>, \<^verbatim>\<open>Planck15.Om0\<close> and \<^verbatim>\<open>Planck15.Ob0\<close> come from
  astropy and are parameters.
\<close>

definition CosmoParams_defaults :: "real \<Rightarrow> real \<Rightarrow> real \<Rightarrow> CosmoParams" where
  "CosmoParams_defaults h Om0 Ob0 =
     \<lparr> hidden_RANDOM_SEED = None,
       SIGMA_8 = 82 / 100,
       hlittle = h,
       OMm = Om0,
       OMb = Ob0,
       POWER_INDEX = 97 / 100 \<rparr>"

text \<open>
  The property \<^verbatim>\<open>RANDOM_SEED\<close>:
  \<^verbatim>\<open>
    while not self._RANDOM_SEED:
        self._RANDOM_SEED = int(np.random.randint(1, 1e12))
    return self._RANDOM_SEED
  \<close>
  The generator of numpy is a parameter: \<open>randint low high g\<close> draws from the generator
  state \<open>g\<close> and returns the number with the next state. The loop has no bound of its
  own, so it is a partial function: \<open>None\<close> is a read that never returns. The read
  returns the seed, the object (whose hidden attribute the loop may have set) and the
  generator state.
\<close>

partial_function (option) RANDOM_SEED ::
  "(int \<Rightarrow> int \<Rightarrow> 'g \<Rightarrow> int \<times> 'g) \<Rightarrow> CosmoParams \<Rightarrow> 'g \<Rightarrow> (int \<times> CosmoParams \<times> 'g) option"
where
  "RANDOM_SEED randint self g =
     (if \<not> truthy_int (hidden_RANDOM_SEED self)
      then (case randint 1 (10 ^ 12) g of
              (v, g') \<Rightarrow> RANDOM_SEED randint (self\<lparr>hidden_RANDOM_SEED := Some v\<rparr>) g')
      else (case hidden_RANDOM_SEED self of
              Some v \<Rightarrow> Some (v, self, g)
            | None \<Rightarrow> None))"

definition OMl :: "CosmoParams \<Rightarrow> real" where
  "OMl self = 1 - OMm self"

subsection \<open>UserParams\<close>

record UserParams =
  BOX_LEN :: real
  hidden_DIM :: "int option"
  HII_DIM :: int

definition UserParams_defaults :: UserParams where
  "UserParams_defaults = \<lparr> BOX_LEN = 150, hidden_DIM = None, HII_DIM = 100 \<rparr>"

text \<open>\<^verbatim>\<open>return self._DIM or 4 * self.HII_DIM\<close>\<close>

definition DIM :: "UserParams \<Rightarrow> int" where
  "DIM self =
     (case hidden_DIM self of
        Some d \<Rightarrow> if d \<noteq> 0 then d else 4 * HII_DIM self
      | None \<Rightarrow> 4 * HII_DIM self)"

definition tot_fft_num_pixels :: "UserParams \<Rightarrow> int" where
  "tot_fft_num_pixels self = DIM self ^ 3"

definition HII_tot_num_pixels :: "UserParams \<Rightarrow> int" where
  "HII_tot_num_pixels self = HII_DIM self ^ 3"

subsection \<open>AstroParams\<close>

record AstroParams =
  astro_INHOMO_RECO :: bool
  EFF_FACTOR_PL_INDEX :: real
  HII_EFF_FACTOR :: real
  hidden_R_BUBBLE_MAX :: "real option"
  hidden_ION_Tvir_MIN :: real
  hidden_L_X :: real
  hidden_NU_X_THRESH :: real
  hidden_NU_X_BAND_MAX :: real
  hidden_NU_X_MAX :: real
  X_RAY_SPEC_INDEX :: real
  hidden_X_RAY_Tvir_MIN :: "real option"
  X_RAY_Tvir_LOWERBOUND :: real
  X_RAY_Tvir_UPPERBOUND :: real
  F_STAR :: real
  t_STAR :: real
  N_RSD_STEPS :: int
  LOS_direction :: int
  Z_HEAT_MAX :: real
  ZPRIME_STEP_FACTOR :: real

text \<open>\<^verbatim>\<open>AstroParams(INHOMO_RECO)\<close> with every keyword at its default.\<close>

definition AstroParams_defaults :: "bool \<Rightarrow> AstroParams" where
  "AstroParams_defaults inhomo_reco =
     \<lparr> astro_INHOMO_RECO = inhomo_reco,
       EFF_FACTOR_PL_INDEX = 0,
       HII_EFF_FACTOR = 30,
       hidden_R_BUBBLE_MAX = None,
       hidden_ION_Tvir_MIN = 469897 / 100000,
       hidden_L_X = 40,
       hidden_NU_X_THRESH = 500,
       hidden_NU_X_BAND_MAX = 2000,
       hidden_NU_X_MAX = 10000,
       X_RAY_SPEC_INDEX = 1,
       hidden_X_RAY_Tvir_MIN = None,
       X_RAY_Tvir_LOWERBOUND = 4,
       X_RAY_Tvir_UPPERBOUND = 6,
       F_STAR = 5 / 100,
       t_STAR = 1 / 2,
       N_RSD_STEPS = 20,
       LOS_direction = 2,
       Z_HEAT_MAX = 10,
       ZPRIME_STEP_FACTOR = 102 / 100 \<rparr>"

definition R_BUBBLE_MAX :: "AstroParams \<Rightarrow> real" where
  "R_BUBBLE_MAX self =
     (if \<not> truthy_real (hidden_R_BUBBLE_MAX self)
      then (if astro_INHOMO_RECO self then 50 else 15)
      else (case hidden_R_BUBBLE_MAX self of Some r \<Rightarrow> r | None \<Rightarrow> 0))"

text \<open>\<^verbatim>\<open>10 ** x\<close> on floats is the real power \<open>10 powr x\<close>.\<close>

definition ION_Tvir_MIN :: "AstroParams \<Rightarrow> real" where
  "ION_Tvir_MIN self = 10 powr hidden_ION_Tvir_MIN self"

definition L_X :: "AstroParams \<Rightarrow> real" where
  "L_X self = 10 powr hidden_L_X self"

text \<open>\<^verbatim>\<open>return 10 ** self._X_RAY_Tvir_MIN if self._X_RAY_Tvir_MIN else self.ION_Tvir_MIN\<close>\<close>

definition X_RAY_Tvir_MIN :: "AstroParams \<Rightarrow> real" where
  "X_RAY_Tvir_MIN self =
     (case hidden_X_RAY_Tvir_MIN self of
        Some x \<Rightarrow> if x \<noteq> 0 then 10 powr x else ION_Tvir_MIN self
      | None \<Rightarrow> ION_Tvir_MIN self)"

text \<open>\<^verbatim>\<open>lib.NU_over_EV\<close> is a constant of the compiled engine: a parameter.\<close>

definition NU_X_THRESH :: "real \<Rightarrow> AstroParams \<Rightarrow> real" where
  "NU_X_THRESH NU_over_EV self = hidden_NU_X_THRESH self * NU_over_EV"

definition NU_X_BAND_MAX :: "real \<Rightarrow> AstroParams \<Rightarrow> real" where
  "NU_X_BAND_MAX NU_over_EV self = hidden_NU_X_BAND_MAX self * NU_over_EV"

definition NU_X_MAX :: "real \<Rightarrow> AstroParams \<Rightarrow> real" where
  "NU_X_MAX NU_over_EV self = hidden_NU_X_MAX self * NU_over_EV"

subsection \<open>FlagOptions\<close>

record FlagOptions =
  INCLUDE_ZETA_PL :: bool
  SUBCELL_RSD :: bool
  USE_FCOLL_IONISATION_TABLE :: bool
  SHORTEN_FCOLL :: bool
  INHOMO_RECO :: bool

definition FlagOptions_defaults :: FlagOptions where
  "FlagOptions_defaults =
     \<lparr> INCLUDE_ZETA_PL = False,
       SUBCELL_RSD = False,
       USE_FCOLL_IONISATION_TABLE = False,
       SHORTEN_FCOLL = False,
       INHOMO_RECO = False \<rparr>"

text \<open>
  \<^verbatim>\<open>FlagOptions._logic\<close> reads two attributes, \<^verbatim>\<open>GenerateNewICs\<close> and
  \<^verbatim>\<open>USE_TS_FLUCT\<close>. Neither is among the defaults of the class, a property of it or
  a class attribute, so an object the sources build has neither. To say so, the two
  are arguments: \<open>Some b\<close> is an attribute with the value \<open>b\<close>, \<open>None\<close> an attribute
  the object does not have, whose read raises \<^verbatim>\<open>AttributeError\<close>. The objects of the
  sources are those with \<open>None\<close> for both.
\<close>

definition getattr_bool :: "bool option \<Rightarrow> exn + bool" where
  "getattr_bool a = (case a of None \<Rightarrow> Inl AttributeError | Some b \<Rightarrow> Inr b)"

text \<open>
  The four checks in the order of the source. \<^verbatim>\<open>a and b\<close> reads \<^verbatim>\<open>b\<close> only when
  \<^verbatim>\<open>a\<close> is true.
\<close>

definition logic :: "bool option \<Rightarrow> bool option \<Rightarrow> FlagOptions \<Rightarrow> exn + unit" where
  "logic GenerateNewICs USE_TS_FLUCT self =
     (case getattr_bool GenerateNewICs of
        Inl e \<Rightarrow> Inl e
      | Inr g \<Rightarrow>
          if g \<and> (USE_FCOLL_IONISATION_TABLE self \<or> SHORTEN_FCOLL self) then Inl ValueError
          else
            (case getattr_bool USE_TS_FLUCT of
               Inl e \<Rightarrow> Inl e
             | Inr t \<Rightarrow>
                 if t \<and> INCLUDE_ZETA_PL self then Inl NotImplementedError
                 else if USE_FCOLL_IONISATION_TABLE self \<and> INHOMO_RECO self then Inl ValueError
                 else if INHOMO_RECO self \<and> t then Inl ValueError
                 else Inr ()))"

text \<open>
  Modelled from the spec: the constructor \<^verbatim>\<open>StructWithDefaults.__init__\<close> of module
  \<^verbatim>\<open>_utils\<close>, which is not among the sources. The spec has the validation raise at
  construction time: the constructor runs \<^verbatim>\<open>_logic\<close> on the object it has filled from
  the defaults and the keywords, and the object exists only if that returns.
\<close>

definition FlagOptions_new :: "bool option \<Rightarrow> bool option \<Rightarrow> FlagOptions \<Rightarrow> exn + FlagOptions" where
  "FlagOptions_new GenerateNewICs USE_TS_FLUCT self =
     (case logic GenerateNewICs USE_TS_FLUCT self of
        Inl e \<Rightarrow> Inl e
      | Inr _ \<Rightarrow> Inr self)"


section \<open>Output structures\<close>

text \<open>
  An instance keeps its numpy arrays as attributes set by \<^verbatim>\<open>_init_boxes\<close>; the
  attributes an instance has are an association list from the attribute's name to the
  array.

  \<^verbatim>\<open>np.zeros(n, dtype=np.float32)\<close> raises \<^verbatim>\<open>ValueError\<close> on a negative size. On a
  size that is not negative it returns the array, or raises \<^verbatim>\<open>ValueError\<close> because
  the size is beyond what numpy can address on the platform, or \<^verbatim>\<open>MemoryError\<close>
  because the memory is not there. Which of the three happens at which size is a
  parameter, \<open>limits\<close>.
\<close>

type_synonym ndarray = "real list"

datatype allocation = Allocated | Too_large | No_memory

definition np_zeros :: "(int \<Rightarrow> allocation) \<Rightarrow> int \<Rightarrow> exn + ndarray" where
  "np_zeros limits n =
     (if n < 0 then Inl ValueError
      else (case limits n of
              Allocated \<Rightarrow> Inr (replicate (nat n) 0)
            | Too_large \<Rightarrow> Inl ValueError
            | No_memory \<Rightarrow> Inl MemoryError))"

text \<open>
  For the examples, a 64-bit platform with memory to spare: numpy takes sizes up to
  \<open>2 ^ 63 - 1\<close> bytes, and an entry has four, so an array is too large from \<open>2 ^ 61\<close>
  entries on.
\<close>

definition roomy :: "int \<Rightarrow> allocation" where
  "roomy n = (if 2 ^ 61 \<le> n then Too_large else Allocated)"

text \<open>
  The attributes every output structure has: the parameters it was made from, the
  flag \<^verbatim>\<open>filled\<close>, and its arrays. \<^verbatim>\<open>InitialConditions\<close> adds nothing;
  \<^verbatim>\<open>PerturbedField\<close> is constructed with the keyword \<^verbatim>\<open>redshift\<close>;
  \<^verbatim>\<open>IonizedBox\<close> and \<^verbatim>\<open>TsBox\<close> with \<^verbatim>\<open>redshift\<close>, \<^verbatim>\<open>astro_params\<close> and
  \<^verbatim>\<open>flag_options\<close>. The records extend one another only to share the field names;
  \<open>cls\<close> tells the two classes of ionized box apart. The naming attributes
  (\<^verbatim>\<open>_id\<close>, \<^verbatim>\<open>_group\<close>) feed nothing but \<^verbatim>\<open>read\<close> and \<^verbatim>\<open>write\<close>, which are
  parameters below, and are left out.
\<close>

record OutputStruct =
  user_params :: UserParams
  cosmo_params :: CosmoParams
  filled :: bool
  attrs :: "(string \<times> ndarray) list"

type_synonym InitialConditions = OutputStruct

record PerturbedField = OutputStruct +
  redshift :: real

datatype box_class = IonizedBox_class | TsBox_class

record IonizedBox = PerturbedField +
  astro_params :: AstroParams
  flag_options :: FlagOptions
  cls :: box_class

definition setattr :: "string \<Rightarrow> ndarray \<Rightarrow> 'a OutputStruct_scheme \<Rightarrow> 'a OutputStruct_scheme" where
  "setattr name v self = self\<lparr>attrs := AList.update name v (attrs self)\<rparr>"

definition getattr :: "'a OutputStruct_scheme \<Rightarrow> string \<Rightarrow> exn + ndarray" where
  "getattr self name = (case map_of (attrs self) name of None \<Rightarrow> Inl AttributeError | Some v \<Rightarrow> Inr v)"

text \<open>
  \<^verbatim>\<open>InitialConditions._init_boxes\<close>: four allocations in the order of the source, then
  the list of names as the source spells it.
\<close>

definition InitialConditions_init_boxes ::
  "(int \<Rightarrow> allocation) \<Rightarrow> 'a OutputStruct_scheme
     \<Rightarrow> exn + ('a OutputStruct_scheme \<times> string list)" where
  "InitialConditions_init_boxes limits self =
     (case np_zeros limits (HII_tot_num_pixels (user_params self)) of Inl e \<Rightarrow> Inl e | Inr a1 \<Rightarrow>
      (let self1 = setattr ''lowres_density'' a1 self in
       case np_zeros limits (HII_tot_num_pixels (user_params self1)) of Inl e \<Rightarrow> Inl e | Inr a2 \<Rightarrow>
       (let self2 = setattr ''lowres_vz'' a2 self1 in
        case np_zeros limits (HII_tot_num_pixels (user_params self2)) of Inl e \<Rightarrow> Inl e | Inr a3 \<Rightarrow>
        (let self3 = setattr ''lowres_vz_2LPT'' a3 self2 in
         case np_zeros limits (tot_fft_num_pixels (user_params self3)) of Inl e \<Rightarrow> Inl e | Inr a4 \<Rightarrow>
         (let self4 = setattr ''hires_density'' a4 self3 in
          Inr (self4, [''lowres_density'', ''lowres_vz'', ''lowre_vz_2LPT'', ''hires_density'']))))))"

definition PerturbedField_init_boxes ::
  "(int \<Rightarrow> allocation) \<Rightarrow> 'a OutputStruct_scheme
     \<Rightarrow> exn + ('a OutputStruct_scheme \<times> string list)" where
  "PerturbedField_init_boxes limits self =
     (case np_zeros limits (HII_tot_num_pixels (user_params self)) of Inl e \<Rightarrow> Inl e | Inr a1 \<Rightarrow>
      (let self1 = setattr ''density'' a1 self in
       case np_zeros limits (HII_tot_num_pixels (user_params self1)) of Inl e \<Rightarrow> Inl e | Inr a2 \<Rightarrow>
       (let self2 = setattr ''velocity'' a2 self1 in
        Inr (self2, [''density'', ''velocity'']))))"

definition IonizedBox_init_boxes ::
  "(int \<Rightarrow> allocation) \<Rightarrow> 'a OutputStruct_scheme
     \<Rightarrow> exn + ('a OutputStruct_scheme \<times> string list)" where
  "IonizedBox_init_boxes limits self =
     (case np_zeros limits (HII_tot_num_pixels (user_params self)) of Inl e \<Rightarrow> Inl e | Inr a1 \<Rightarrow>
      (let self1 = setattr ''ionized_box'' a1 self in
       Inr (self1, [''ionized_box''])))"

definition TsBox_init_boxes ::
  "(int \<Rightarrow> allocation) \<Rightarrow> 'a OutputStruct_scheme
     \<Rightarrow> exn + ('a OutputStruct_scheme \<times> string list)" where
  "TsBox_init_boxes limits self =
     (case np_zeros limits (HII_tot_num_pixels (user_params self)) of Inl e \<Rightarrow> Inl e | Inr a1 \<Rightarrow>
      (let self1 = setattr ''Ts_box'' a1 self in
       Inr (self1, [''Ts_box''])))"

text \<open>
  Modelled from the spec: the constructor \<^verbatim>\<open>OutputStruct.__init__\<close> of module
  \<^verbatim>\<open>_utils\<close>, which is not among the sources. By the spec an output box is tagged with
  the parameter sets that produced it, carries a "filled" flag that says whether the
  engine has populated it, and allocates its arrays sized by the grid dimensions: the
  constructor stores the parameters and the keywords, starts unfilled and allocates
  through the \<^verbatim>\<open>_init_boxes\<close> of the class. The three constructors below pass on what
  the \<^verbatim>\<open>__init__\<close> methods of the source pass to it.
\<close>

definition InitialConditions_new ::
  "(int \<Rightarrow> allocation) \<Rightarrow> UserParams \<Rightarrow> CosmoParams \<Rightarrow> exn + InitialConditions" where
  "InitialConditions_new limits up cp =
     (case InitialConditions_init_boxes limits
             \<lparr> user_params = up, cosmo_params = cp, filled = False, attrs = [] \<rparr> of
        Inl e \<Rightarrow> Inl e
      | Inr (self, names) \<Rightarrow> Inr self)"

definition PerturbedField_new ::
  "(int \<Rightarrow> allocation) \<Rightarrow> UserParams \<Rightarrow> CosmoParams \<Rightarrow> real \<Rightarrow> exn + PerturbedField" where
  "PerturbedField_new limits up cp z =
     (case PerturbedField_init_boxes limits
             \<lparr> user_params = up, cosmo_params = cp, filled = False, attrs = [], redshift = z \<rparr> of
        Inl e \<Rightarrow> Inl e
      | Inr (self, names) \<Rightarrow> Inr self)"

definition IonizedBox_new ::
  "(int \<Rightarrow> allocation) \<Rightarrow> box_class \<Rightarrow> UserParams \<Rightarrow> CosmoParams \<Rightarrow> real
     \<Rightarrow> AstroParams \<Rightarrow> FlagOptions \<Rightarrow> exn + IonizedBox" where
  "IonizedBox_new limits c up cp z ap fo =
     (case (case c of
              IonizedBox_class \<Rightarrow> IonizedBox_init_boxes limits
            | TsBox_class \<Rightarrow> TsBox_init_boxes limits)
             \<lparr> user_params = up, cosmo_params = cp, filled = False, attrs = [], redshift = z,
               astro_params = ap, flag_options = fo, cls = c \<rparr> of
        Inl e \<Rightarrow> Inl e
      | Inr (self, names) \<Rightarrow> Inr self)"


section \<open>The wrapping functions\<close>

text \<open>
  What the three functions do to the outside is recorded in a world: the state of the
  cache directory and, in order, every call of \<^verbatim>\<open>read\<close>, of \<^verbatim>\<open>write\<close>, of a routine
  of the compiled engine, and every line printed.
\<close>

type_synonym direc = "string option"
type_synonym fname = "string option"

datatype box = IC InitialConditions | PF PerturbedField | IB IonizedBox

datatype event =
    Print string
  | Read box direc fname bool
  | Write box direc fname
  | Call_ComputeInitialConditions UserParams CosmoParams InitialConditions
  | Call_ComputePerturbField real InitialConditions PerturbedField
  | Call_ComputeIonizedBox real PerturbedField IonizedBox
  | Call_ComputeTsBox real PerturbedField IonizedBox

record 'd world =
  disk :: 'd
  trace :: "event list"

definition log_event :: "event \<Rightarrow> 'd world \<Rightarrow> 'd world" where
  "log_event e w = w\<lparr>trace := trace w @ [e]\<rparr>"

text \<open>
  The collaborators that are not in the sources are parameters:
  \<^item> \<^verbatim>\<open>OutputStruct.read(direc, fname, match_seed)\<close> of module \<^verbatim>\<open>_utils\<close>, one per
    class of box: from the cache state and the object it returns the object as read,
    or the exception it raises;
  \<^item> \<^verbatim>\<open>OutputStruct.write(direc, fname)\<close>: the cache state after the write;
  \<^item> the four routines of the compiled engine \<^verbatim>\<open>lib\<close>, which fill the buffers of the
    output structure they are handed: each returns the arrays of that structure after
    the call. The conversions \<^verbatim>\<open>user_params()\<close>, \<^verbatim>\<open>boxes()\<close> to C structures belong
    to the absent module too; the routines take the Python objects;
  \<^item> the three constants of \<^verbatim>\<open>astropy.cosmology.Planck15\<close>;
  \<^item> the limits of numpy on the platform, \<open>np_limits\<close>.
\<close>

record 'd env =
  np_limits :: "int \<Rightarrow> allocation"
  Planck15_h :: real
  Planck15_Om0 :: real
  Planck15_Ob0 :: real
  read_InitialConditions :: "'d \<Rightarrow> InitialConditions \<Rightarrow> direc \<Rightarrow> fname \<Rightarrow> bool \<Rightarrow> exn + InitialConditions"
  read_PerturbedField :: "'d \<Rightarrow> PerturbedField \<Rightarrow> direc \<Rightarrow> fname \<Rightarrow> bool \<Rightarrow> exn + PerturbedField"
  read_IonizedBox :: "'d \<Rightarrow> IonizedBox \<Rightarrow> direc \<Rightarrow> fname \<Rightarrow> bool \<Rightarrow> exn + IonizedBox"
  write_InitialConditions :: "'d \<Rightarrow> InitialConditions \<Rightarrow> direc \<Rightarrow> fname \<Rightarrow> 'd"
  write_PerturbedField :: "'d \<Rightarrow> PerturbedField \<Rightarrow> direc \<Rightarrow> fname \<Rightarrow> 'd"
  write_IonizedBox :: "'d \<Rightarrow> IonizedBox \<Rightarrow> direc \<Rightarrow> fname \<Rightarrow> 'd"
  ComputeInitialConditions :: "UserParams \<Rightarrow> CosmoParams \<Rightarrow> InitialConditions \<Rightarrow> (string \<times> ndarray) list"
  ComputePerturbField :: "real \<Rightarrow> InitialConditions \<Rightarrow> PerturbedField \<Rightarrow> (string \<times> ndarray) list"
  ComputeIonizedBox :: "real \<Rightarrow> PerturbedField \<Rightarrow> IonizedBox \<Rightarrow> (string \<times> ndarray) list"
  ComputeTsBox :: "real \<Rightarrow> PerturbedField \<Rightarrow> IonizedBox \<Rightarrow> (string \<times> ndarray) list"

subsection \<open>initial_conditions\<close>

text \<open>
  Lines 352 to 360, which the function reaches when \<^verbatim>\<open>regenerate\<close> is set and when
  the read raised \<^verbatim>\<open>IOError\<close>: run the engine, set \<^verbatim>\<open>filled\<close>, write if asked.
\<close>

definition initial_conditions_compute ::
  "'d env \<Rightarrow> UserParams \<Rightarrow> CosmoParams \<Rightarrow> bool \<Rightarrow> direc \<Rightarrow> fname \<Rightarrow> InitialConditions \<Rightarrow> 'd world
     \<Rightarrow> (exn + InitialConditions) \<times> 'd world" where
  "initial_conditions_compute env up cp write direc fname boxes w =
     (let w1 = log_event (Call_ComputeInitialConditions up cp boxes) w;
          boxes1 = boxes\<lparr>attrs := ComputeInitialConditions env up cp boxes\<rparr>;
          boxes2 = boxes1\<lparr>filled := True\<rparr>
      in if write
         then (Inr boxes2,
               (log_event (Write (IC boxes2) direc fname) w1)
                 \<lparr>disk := write_InitialConditions env (disk w1) boxes2 direc fname\<rparr>)
         else (Inr boxes2, w1))"

definition initial_conditions ::
  "'d env \<Rightarrow> UserParams \<Rightarrow> CosmoParams \<Rightarrow> bool \<Rightarrow> bool \<Rightarrow> direc \<Rightarrow> fname \<Rightarrow> bool \<Rightarrow> 'd world
     \<Rightarrow> (exn + InitialConditions) \<times> 'd world" where
  "initial_conditions env up cp regenerate write direc fname match_seed w =
     (case InitialConditions_new (np_limits env) up cp of
        Inl e \<Rightarrow> (Inl e, w)
      | Inr boxes \<Rightarrow>
          if \<not> regenerate then
            (let w1 = log_event (Read (IC boxes) direc fname match_seed) w in
             case read_InitialConditions env (disk w1) boxes direc fname match_seed of
               Inr boxes' \<Rightarrow>
                 (Inr boxes', log_event (Print ''Existing init_boxes found and read in.'') w1)
             | Inl e \<Rightarrow>
                 if e = IOError
                 then initial_conditions_compute env up cp write direc fname boxes w1
                 else (Inl e, w1))
          else initial_conditions_compute env up cp write direc fname boxes w)"

subsection \<open>perturb_field\<close>

definition perturb_field_compute ::
  "'d env \<Rightarrow> real \<Rightarrow> InitialConditions \<Rightarrow> bool \<Rightarrow> direc \<Rightarrow> fname \<Rightarrow> PerturbedField \<Rightarrow> 'd world
     \<Rightarrow> (exn + PerturbedField) \<times> 'd world" where
  "perturb_field_compute env z init_boxes write direc fname pfield w =
     (let w1 = log_event (Call_ComputePerturbField z init_boxes pfield) w;
          pfield1 = pfield\<lparr>attrs := ComputePerturbField env z init_boxes pfield\<rparr>;
          pfield2 = pfield1\<lparr>filled := True\<rparr>
      in if write
         then (Inr pfield2,
               (log_event (Write (PF pfield2) direc fname) w1)
                 \<lparr>disk := write_PerturbedField env (disk w1) pfield2 direc fname\<rparr>)
         else (Inr pfield2, w1))"

text \<open>
  Lines 431 to 438: the parameters come from \<^verbatim>\<open>init_boxes\<close> when it is given, else
  from the arguments, else they are the defaults. In \<^verbatim>\<open>user_params or UserParams()\<close>
  an object of the class counts as true, so the default is taken exactly when the
  argument is \<^verbatim>\<open>None\<close>.
\<close>

definition perturb_field_user_params :: "InitialConditions option \<Rightarrow> UserParams option \<Rightarrow> UserParams" where
  "perturb_field_user_params init_boxes up =
     (case (case init_boxes of Some ib \<Rightarrow> Some (user_params ib) | None \<Rightarrow> up) of
        Some u \<Rightarrow> u
      | None \<Rightarrow> UserParams_defaults)"

definition perturb_field_cosmo_params ::
  "'d env \<Rightarrow> InitialConditions option \<Rightarrow> CosmoParams option \<Rightarrow> CosmoParams" where
  "perturb_field_cosmo_params env init_boxes cp =
     (case (case init_boxes of Some ib \<Rightarrow> Some (cosmo_params ib) | None \<Rightarrow> cp) of
        Some c \<Rightarrow> c
      | None \<Rightarrow> CosmoParams_defaults (Planck15_h env) (Planck15_Om0 env) (Planck15_Ob0 env))"

text \<open>
  Lines 440 to 445, "make sure we've got computed init boxes": the initial conditions
  the function goes on with. The inner call of \<^verbatim>\<open>initial_conditions\<close> is not given
  \<^verbatim>\<open>match_seed\<close>, which is then its default \<^verbatim>\<open>False\<close>.
\<close>

definition perturb_field_init_boxes ::
  "'d env \<Rightarrow> InitialConditions option \<Rightarrow> UserParams \<Rightarrow> CosmoParams
     \<Rightarrow> bool \<Rightarrow> bool \<Rightarrow> direc \<Rightarrow> fname \<Rightarrow> 'd world
     \<Rightarrow> (exn + InitialConditions) \<times> 'd world" where
  "perturb_field_init_boxes env init_boxes up2 cp2 regenerate write direc fname w =
     (case init_boxes of
        Some ib \<Rightarrow>
          if \<not> filled ib
          then initial_conditions env up2 cp2 regenerate write direc fname False w
          else (Inr ib, w)
      | None \<Rightarrow> initial_conditions env up2 cp2 regenerate write direc fname False w)"

text \<open>The function; \<open>pfield\<close> is \<^verbatim>\<open>fields\<close> of the source.\<close>

definition perturb_field ::
  "'d env \<Rightarrow> real \<Rightarrow> InitialConditions option \<Rightarrow> UserParams option \<Rightarrow> CosmoParams option
     \<Rightarrow> bool \<Rightarrow> bool \<Rightarrow> direc \<Rightarrow> fname \<Rightarrow> bool \<Rightarrow> 'd world
     \<Rightarrow> (exn + PerturbedField) \<times> 'd world" where
  "perturb_field env z init_boxes up cp regenerate write direc fname match_seed w =
     (let up2 = perturb_field_user_params init_boxes up;
          cp2 = perturb_field_cosmo_params env init_boxes cp
      in
      case perturb_field_init_boxes env init_boxes up2 cp2 regenerate write direc fname w of
        (Inl e, w0) \<Rightarrow> (Inl e, w0)
      | (Inr init_boxes1, w0) \<Rightarrow>
          (case PerturbedField_new (np_limits env) up2 cp2 z of
             Inl e \<Rightarrow> (Inl e, w0)
           | Inr pfield \<Rightarrow>
               if \<not> regenerate then
                 (let w1 = log_event (Read (PF pfield) direc fname match_seed) w0 in
                  case read_PerturbedField env (disk w1) pfield direc fname match_seed of
                    Inr pfield' \<Rightarrow>
                      (Inr pfield',
                       log_event (Print ''Existing perturb_field boxes found and read in.'') w1)
                  | Inl e \<Rightarrow>
                      if e = IOError
                      then perturb_field_compute env z init_boxes1 write direc fname pfield w1
                      else (Inl e, w1))
               else perturb_field_compute env z init_boxes1 write direc fname pfield w0))"

subsection \<open>ionize_box\<close>

definition ionize_box_compute ::
  "'d env \<Rightarrow> real \<Rightarrow> PerturbedField \<Rightarrow> bool \<Rightarrow> direc \<Rightarrow> fname \<Rightarrow> bool \<Rightarrow> IonizedBox \<Rightarrow> 'd world
     \<Rightarrow> (exn + IonizedBox) \<times> 'd world" where
  "ionize_box_compute env z perturbed_field write direc fname do_spin_temp box w =
     (let w1 = (if \<not> do_spin_temp
                then log_event (Call_ComputeIonizedBox z perturbed_field box) w
                else log_event (Call_ComputeTsBox z perturbed_field box) w);
          box1 = (if \<not> do_spin_temp
                  then box\<lparr>attrs := ComputeIonizedBox env z perturbed_field box\<rparr>
                  else box\<lparr>attrs := ComputeTsBox env z perturbed_field box\<rparr>);
          box2 = box1\<lparr>filled := True\<rparr>
      in if write
         then (Inr box2,
               (log_event (Write (IB box2) direc fname) w1)
                 \<lparr>disk := write_IonizedBox env (disk w1) box2 direc fname\<rparr>)
         else (Inr box2, w1))"

text \<open>
  Lines 529 to 532: the function raises when it is given neither a perturbed field nor
  a redshift; else the redshift it goes on with is that of the perturbed field when
  one is given, and the argument when none is.
\<close>

definition ionize_box_redshift :: "real option \<Rightarrow> PerturbedField option \<Rightarrow> exn + real" where
  "ionize_box_redshift redshift_arg perturbed_field =
     (case perturbed_field of
        None \<Rightarrow> (case redshift_arg of None \<Rightarrow> Inl ValueError | Some r \<Rightarrow> Inr r)
      | Some pf \<Rightarrow> Inr (redshift pf))"

text \<open>Lines 534 to 540, "dynamically produce the perturbed field".\<close>

definition ionize_box_perturbed_field ::
  "'d env \<Rightarrow> real \<Rightarrow> PerturbedField option \<Rightarrow> InitialConditions option
     \<Rightarrow> UserParams option \<Rightarrow> CosmoParams option
     \<Rightarrow> bool \<Rightarrow> bool \<Rightarrow> direc \<Rightarrow> fname \<Rightarrow> bool \<Rightarrow> 'd world
     \<Rightarrow> (exn + PerturbedField) \<times> 'd world" where
  "ionize_box_perturbed_field env z perturbed_field init_boxes up cp
       regenerate write direc fname match_seed w =
     (case perturbed_field of
        Some pf \<Rightarrow>
          if \<not> filled pf
          then perturb_field env z init_boxes up cp regenerate write direc fname match_seed w
          else (Inr pf, w)
      | None \<Rightarrow>
          perturb_field env z init_boxes up cp regenerate write direc fname match_seed w)"

text \<open>
  The function, its arguments in the order of the source: \<open>ap\<close> and \<open>fo\<close> are
  \<^verbatim>\<open>astro_params\<close> and \<^verbatim>\<open>flag_options\<close>, \<open>redshift_arg\<close> is \<^verbatim>\<open>redshift\<close>.
\<close>

definition ionize_box ::
  "'d env \<Rightarrow> AstroParams \<Rightarrow> FlagOptions \<Rightarrow> real option \<Rightarrow> PerturbedField option
     \<Rightarrow> InitialConditions option \<Rightarrow> CosmoParams option \<Rightarrow> UserParams option
     \<Rightarrow> bool \<Rightarrow> bool \<Rightarrow> direc \<Rightarrow> fname \<Rightarrow> bool \<Rightarrow> bool \<Rightarrow> 'd world
     \<Rightarrow> (exn + IonizedBox) \<times> 'd world" where
  "ionize_box env ap fo redshift_arg perturbed_field init_boxes cp up
              regenerate write direc fname match_seed do_spin_temp w =
     (case ionize_box_redshift redshift_arg perturbed_field of
        Inl e \<Rightarrow> (Inl e, w)
      | Inr z \<Rightarrow>
          (case ionize_box_perturbed_field env z perturbed_field init_boxes up cp
                  regenerate write direc fname match_seed w of
             (Inl e, w0) \<Rightarrow> (Inl e, w0)
           | (Inr perturbed_field1, w0) \<Rightarrow>
               (case IonizedBox_new (np_limits env)
                       (if \<not> do_spin_temp then IonizedBox_class else TsBox_class)
                       (user_params perturbed_field1) (cosmo_params perturbed_field1) z ap fo of
                  Inl e \<Rightarrow> (Inl e, w0)
                | Inr box \<Rightarrow>
                    if \<not> regenerate then
                      (let w1 = log_event (Read (IB box) direc fname match_seed) w0 in
                       case read_IonizedBox env (disk w1) box direc fname match_seed of
                         Inr box' \<Rightarrow>
                           (Inr box',
                            log_event (Print ''Existing perturb_field boxes found and read in.'') w1)
                       | Inl e \<Rightarrow>
                           if e = IOError
                           then ionize_box_compute env z perturbed_field1 write direc fname
                                  do_spin_temp box w1
                           else (Inl e, w1))
                    else ionize_box_compute env z perturbed_field1 write direc fname
                           do_spin_temp box w0)))"

subsection \<open>Reading a trace\<close>

text \<open>
  What an event is, by name; the output of the earlier stage that a call of the engine
  is handed; and the redshifts an event of the ionized-box stage carries: that of the
  box it reads, computes or writes, and that handed to the engine.
\<close>

fun event_name :: "event \<Rightarrow> string" where
  "event_name (Print s) = ''print''"
| "event_name (Read (IC b) d f m) = ''read InitialConditions''"
| "event_name (Read (PF b) d f m) = ''read PerturbedField''"
| "event_name (Read (IB b) d f m) = ''read IonizedBox''"
| "event_name (Write (IC b) d f) = ''write InitialConditions''"
| "event_name (Write (PF b) d f) = ''write PerturbedField''"
| "event_name (Write (IB b) d f) = ''write IonizedBox''"
| "event_name (Call_ComputeInitialConditions u c b) = ''ComputeInitialConditions''"
| "event_name (Call_ComputePerturbField z i b) = ''ComputePerturbField''"
| "event_name (Call_ComputeIonizedBox z p b) = ''ComputeIonizedBox''"
| "event_name (Call_ComputeTsBox z p b) = ''ComputeTsBox''"



subsection \<open>Collaborators that raise no ValueError of their own\<close>


definition reads_quiet :: "'d env \<Rightarrow> bool" where
  "reads_quiet env \<longleftrightarrow>
     (\<forall>d b direc fname m. read_InitialConditions env d b direc fname m \<noteq> Inl ValueError)
   \<and> (\<forall>d b direc fname m. read_PerturbedField env d b direc fname m \<noteq> Inl ValueError)
   \<and> (\<forall>d b direc fname m. read_IonizedBox env d b direc fname m \<noteq> Inl ValueError)
   \<and> (\<forall>d b direc fname m b'. read_PerturbedField env d b direc fname m = Inr b' \<longrightarrow>
         user_params b' = user_params b)"


subsection \<open>An instance of the collaborators\<close>

text \<open>
  For the examples: the cache is the list of the boxes written, the newest first. A
  read returns the newest box of its class made from the same parameters, and raises
  \<^verbatim>\<open>IOError\<close> when there is none. The engine fills every array with ones. The three
  constants are those of astropy's \<^verbatim>\<open>Planck15\<close>, the platform is \<open>roomy\<close>.
\<close>

fun lookup_InitialConditions :: "box list \<Rightarrow> InitialConditions \<Rightarrow> exn + InitialConditions" where
  "lookup_InitialConditions [] b = Inl IOError"
| "lookup_InitialConditions (IC c # d) b =
     (if user_params c = user_params b \<and> cosmo_params c = cosmo_params b
      then Inr c else lookup_InitialConditions d b)"
| "lookup_InitialConditions (PF c # d) b = lookup_InitialConditions d b"
| "lookup_InitialConditions (IB c # d) b = lookup_InitialConditions d b"

fun lookup_PerturbedField :: "box list \<Rightarrow> PerturbedField \<Rightarrow> exn + PerturbedField" where
  "lookup_PerturbedField [] b = Inl IOError"
| "lookup_PerturbedField (PF c # d) b =
     (if user_params c = user_params b \<and> cosmo_params c = cosmo_params b
         \<and> redshift c = redshift b
      then Inr c else lookup_PerturbedField d b)"
| "lookup_PerturbedField (IC c # d) b = lookup_PerturbedField d b"
| "lookup_PerturbedField (IB c # d) b = lookup_PerturbedField d b"

fun lookup_IonizedBox :: "box list \<Rightarrow> IonizedBox \<Rightarrow> exn + IonizedBox" where
  "lookup_IonizedBox [] b = Inl IOError"
| "lookup_IonizedBox (IB c # d) b =
     (if user_params c = user_params b \<and> cosmo_params c = cosmo_params b
         \<and> redshift c = redshift b \<and> astro_params c = astro_params b
         \<and> flag_options c = flag_options b \<and> cls c = cls b
      then Inr c else lookup_IonizedBox d b)"
| "lookup_IonizedBox (IC c # d) b = lookup_IonizedBox d b"
| "lookup_IonizedBox (PF c # d) b = lookup_IonizedBox d b"

definition ones :: "'a OutputStruct_scheme \<Rightarrow> (string \<times> ndarray) list" where
  "ones b = map (\<lambda>(name, a). (name, map (\<lambda>x. 1) a)) (attrs b)"

definition list_cache :: "box list env" where
  "list_cache =
     \<lparr> np_limits = roomy,
       Planck15_h = 6774 / 10000,
       Planck15_Om0 = 3075 / 10000,
       Planck15_Ob0 = 486 / 10000,
       read_InitialConditions = (\<lambda>d b direc fname match_seed. lookup_InitialConditions d b),
       read_PerturbedField = (\<lambda>d b direc fname match_seed. lookup_PerturbedField d b),
       read_IonizedBox = (\<lambda>d b direc fname match_seed. lookup_IonizedBox d b),
       write_InitialConditions = (\<lambda>d b direc fname. IC b # d),
       write_PerturbedField = (\<lambda>d b direc fname. PF b # d),
       write_IonizedBox = (\<lambda>d b direc fname. IB b # d),
       ComputeInitialConditions = (\<lambda>up cp b. ones b),
       ComputePerturbField = (\<lambda>z init_boxes b. ones b),
       ComputeIonizedBox = (\<lambda>z perturbed_field b. ones b),
       ComputeTsBox = (\<lambda>z perturbed_field b. ones b) \<rparr>"

text \<open>The smallest grid: one cell at either resolution.\<close>

definition one_cell :: UserParams where
  "one_cell = \<lparr> BOX_LEN = 150, hidden_DIM = Some 1, HII_DIM = 1 \<rparr>"

definition seeded :: CosmoParams where
  "seeded = (CosmoParams_defaults (6774 / 10000) (3075 / 10000) (486 / 10000))
              \<lparr>hidden_RANDOM_SEED := Some 42\<rparr>"



section \<open>Properties of the parameter structures\<close>

subsection \<open>Grid sizes and the arrays of the initial conditions\<close>

lemma np_zeros_length: "np_zeros limits n = Inr a \<Longrightarrow> int (length a) = n"
  by (auto simp: np_zeros_def split: if_splits allocation.splits)

lemma np_zeros_nonneg:
  "0 \<le> n \<Longrightarrow> limits n = Allocated \<Longrightarrow> np_zeros limits n = Inr (replicate (nat n) 0)"
  by (simp add: np_zeros_def)

lemma np_zeros_error: "np_zeros limits n = Inl e \<Longrightarrow> e = ValueError \<or> e = MemoryError"
  by (auto simp: np_zeros_def split: if_splits allocation.splits)

lemma np_zeros_too_large: "limits n = Too_large \<Longrightarrow> np_zeros limits n = Inl ValueError"
  by (simp add: np_zeros_def)

lemma user_params_setattr [simp]: "user_params (setattr name v self) = user_params self"
  by (simp add: setattr_def)

lemma map_of_attrs_setattr [simp]:
  "map_of (attrs (setattr name v self)) = (map_of (attrs self))(name \<mapsto> v)"
  by (simp add: setattr_def update_conv')

lemma InitialConditions_init_boxes_lengths:
  assumes "InitialConditions_init_boxes limits self = Inr (self', names)"
  shows "(\<exists>a. getattr self' ''lowres_density'' = Inr a
              \<and> int (length a) = HII_tot_num_pixels (user_params self))
       \<and> (\<exists>a. getattr self' ''lowres_vz'' = Inr a
              \<and> int (length a) = HII_tot_num_pixels (user_params self))
       \<and> (\<exists>a. getattr self' ''lowres_vz_2LPT'' = Inr a
              \<and> int (length a) = HII_tot_num_pixels (user_params self))
       \<and> (\<exists>a. getattr self' ''hires_density'' = Inr a
              \<and> int (length a) = tot_fft_num_pixels (user_params self))"
  using assms
  by (auto simp: InitialConditions_init_boxes_def getattr_def Let_def
           dest!: np_zeros_length split: sum.splits)

lemma InitialConditions_init_boxes_succeeds:
  assumes "0 \<le> HII_DIM (user_params self)" and "0 \<le> DIM (user_params self)"
    and "limits (HII_DIM (user_params self) ^ 3) = Allocated"
    and "limits (DIM (user_params self) ^ 3) = Allocated"
  shows "\<exists>self' names. InitialConditions_init_boxes limits self = Inr (self', names)"
  using assms
  by (simp add: InitialConditions_init_boxes_def Let_def HII_tot_num_pixels_def
        tot_fft_num_pixels_def np_zeros_nonneg)

lemma InitialConditions_init_boxes_too_large:
  assumes "limits (HII_DIM (user_params self) ^ 3) = Too_large"
  shows "InitialConditions_init_boxes limits self = Inl ValueError"
  using assms
  by (simp add: InitialConditions_init_boxes_def HII_tot_num_pixels_def np_zeros_too_large)

text \<open>
  Claim C6. A \<^verbatim>\<open>UserParams\<close> made without a value for \<^verbatim>\<open>DIM\<close> has \<^verbatim>\<open>DIM\<close> equal to
  four times \<^verbatim>\<open>HII_DIM\<close>. For every \<^verbatim>\<open>UserParams\<close>, \<^verbatim>\<open>tot_fft_num_pixels\<close> is the cube
  of \<^verbatim>\<open>DIM\<close> and \<^verbatim>\<open>HII_tot_num_pixels\<close> the cube of \<^verbatim>\<open>HII_DIM\<close>. Whenever
  \<^verbatim>\<open>InitialConditions._init_boxes\<close> returns, on any platform, the three low-resolution
  arrays it has set on the instance have \<^verbatim>\<open>HII_DIM\<close> cubed entries and
  \<^verbatim>\<open>hires_density\<close> has \<^verbatim>\<open>DIM\<close> cubed entries. It returns when neither size is negative
  and the platform allocates arrays of both sizes; it raises \<^verbatim>\<open>ValueError\<close> when
  \<^verbatim>\<open>HII_DIM\<close> cubed is too large for the platform.
\<close>

theorem UserParams_sizes_and_allocated_lengths:
  "(hidden_DIM up = None \<longrightarrow> DIM up = 4 * HII_DIM up)
   \<and> tot_fft_num_pixels up = DIM up ^ 3
   \<and> HII_tot_num_pixels up = HII_DIM up ^ 3
   \<and> (\<forall>limits self self' names.
         user_params self = up \<and> InitialConditions_init_boxes limits self = Inr (self', names) \<longrightarrow>
           (\<exists>a. getattr self' ''lowres_density'' = Inr a \<and> int (length a) = HII_DIM up ^ 3)
         \<and> (\<exists>a. getattr self' ''lowres_vz'' = Inr a \<and> int (length a) = HII_DIM up ^ 3)
         \<and> (\<exists>a. getattr self' ''lowres_vz_2LPT'' = Inr a \<and> int (length a) = HII_DIM up ^ 3)
         \<and> (\<exists>a. getattr self' ''hires_density'' = Inr a \<and> int (length a) = DIM up ^ 3))
   \<and> (\<forall>limits self.
         user_params self = up \<and> 0 \<le> HII_DIM up \<and> 0 \<le> DIM up
         \<and> limits (HII_DIM up ^ 3) = Allocated \<and> limits (DIM up ^ 3) = Allocated \<longrightarrow>
         (\<exists>self' names. InitialConditions_init_boxes limits self = Inr (self', names)))
   \<and> (\<forall>limits self.
         user_params self = up \<and> limits (HII_DIM up ^ 3) = Too_large \<longrightarrow>
         InitialConditions_init_boxes limits self = Inl ValueError)"
proof (intro conjI allI impI)
  show "DIM up = 4 * HII_DIM up" if "hidden_DIM up = None"
    using that by (simp add: DIM_def)
  show "tot_fft_num_pixels up = DIM up ^ 3"
    by (simp add: tot_fft_num_pixels_def)
  show "HII_tot_num_pixels up = HII_DIM up ^ 3"
    by (simp add: HII_tot_num_pixels_def)
next
  fix limits and self :: "'a OutputStruct_scheme" and self' names
  assume a: "user_params self = up \<and> InitialConditions_init_boxes limits self = Inr (self', names)"
  then have b: "InitialConditions_init_boxes limits self = Inr (self', names)"
    by simp
  note l = InitialConditions_init_boxes_lengths [OF b, unfolded HII_tot_num_pixels_def
      tot_fft_num_pixels_def]
  from a l show "\<exists>a. getattr self' ''lowres_density'' = Inr a \<and> int (length a) = HII_DIM up ^ 3"
    by simp
  from a l show "\<exists>a. getattr self' ''lowres_vz'' = Inr a \<and> int (length a) = HII_DIM up ^ 3"
    by simp
  from a l show "\<exists>a. getattr self' ''lowres_vz_2LPT'' = Inr a \<and> int (length a) = HII_DIM up ^ 3"
    by simp
  from a l show "\<exists>a. getattr self' ''hires_density'' = Inr a \<and> int (length a) = DIM up ^ 3"
    by simp
next
  fix limits and self :: "'b OutputStruct_scheme"
  assume "user_params self = up \<and> 0 \<le> HII_DIM up \<and> 0 \<le> DIM up
      \<and> limits (HII_DIM up ^ 3) = Allocated \<and> limits (DIM up ^ 3) = Allocated"
  then show "\<exists>self' names. InitialConditions_init_boxes limits self = Inr (self', names)"
    using InitialConditions_init_boxes_succeeds [of self limits] by simp
next
  fix limits and self :: "'c OutputStruct_scheme"
  assume "user_params self = up \<and> limits (HII_DIM up ^ 3) = Too_large"
  then show "InitialConditions_init_boxes limits self = Inl ValueError"
    using InitialConditions_init_boxes_too_large [of limits self] by simp
qed

text \<open>
  The theorem at \<^verbatim>\<open>UserParams(HII_DIM=2)\<close> on the platform \<open>roomy\<close>: \<^verbatim>\<open>DIM\<close> is 8, and
  the arrays of a fresh instance have 8 and 512 entries. At
  \<^verbatim>\<open>UserParams(DIM=1, HII_DIM=2**21)\<close> the allocation raises \<^verbatim>\<open>ValueError\<close> there.
\<close>

theorem UserParams_sizes_and_allocated_lengths_witness:
  "DIM (UserParams_defaults\<lparr>HII_DIM := 2\<rparr>) = 8
   \<and> tot_fft_num_pixels (UserParams_defaults\<lparr>HII_DIM := 2\<rparr>) = 512
   \<and> HII_tot_num_pixels (UserParams_defaults\<lparr>HII_DIM := 2\<rparr>) = 8
   \<and> (\<exists>self' names a b.
         InitialConditions_init_boxes roomy
           \<lparr> user_params = UserParams_defaults\<lparr>HII_DIM := 2\<rparr>,
             cosmo_params = CosmoParams_defaults 0 0 0, filled = False, attrs = [] \<rparr>
           = Inr (self', names)
         \<and> getattr self' ''lowres_vz_2LPT'' = Inr a \<and> int (length a) = 8
         \<and> getattr self' ''hires_density'' = Inr b \<and> int (length b) = 512)
   \<and> InitialConditions_init_boxes roomy
         \<lparr> user_params = UserParams_defaults\<lparr>hidden_DIM := Some 1, HII_DIM := 2 ^ 21\<rparr>,
           cosmo_params = CosmoParams_defaults 0 0 0, filled = False, attrs = [] \<rparr>
       = Inl ValueError"
proof -
  let ?up = "UserParams_defaults\<lparr>HII_DIM := 2\<rparr>"
  let ?self = "\<lparr> user_params = ?up, cosmo_params = CosmoParams_defaults 0 0 0,
                 filled = False, attrs = [] \<rparr>"
  let ?big = "UserParams_defaults\<lparr>hidden_DIM := Some 1, HII_DIM := 2 ^ 21\<rparr>"
  let ?bigself = "\<lparr> user_params = ?big, cosmo_params = CosmoParams_defaults 0 0 0,
                    filled = False, attrs = [] \<rparr>"
  note t = UserParams_sizes_and_allocated_lengths [of ?up]
  note u = UserParams_sizes_and_allocated_lengths [of ?big]
  have none: "hidden_DIM ?up = None" and hii: "HII_DIM ?up = 2"
    by (simp_all add: UserParams_defaults_def)
  from t have "hidden_DIM ?up = None \<longrightarrow> DIM ?up = 4 * HII_DIM ?up"
    by (rule conjunct1)
  with none hii have dim: "DIM ?up = 8"
    by simp
  from t have "tot_fft_num_pixels ?up = DIM ?up ^ 3" and "HII_tot_num_pixels ?up = HII_DIM ?up ^ 3"
    by blast+
  with dim hii have px: "tot_fft_num_pixels ?up = 512" "HII_tot_num_pixels ?up = 8"
    by simp_all
  have room: "roomy (HII_DIM ?up ^ 3) = Allocated" "roomy (DIM ?up ^ 3) = Allocated"
    by (simp_all add: dim hii roomy_def)
  note s = t [THEN conjunct2, THEN conjunct2, THEN conjunct2, THEN conjunct2, THEN conjunct1,
      rule_format, of ?self roomy]
  from s dim hii room obtain self' names
    where ok: "InitialConditions_init_boxes roomy ?self = Inr (self', names)"
    by auto
  note l = t [THEN conjunct2, THEN conjunct2, THEN conjunct2, THEN conjunct1,
      rule_format, of ?self roomy self' names]
  from l ok dim hii obtain a b
    where ab: "getattr self' ''lowres_vz_2LPT'' = Inr a" "int (length a) = 8"
      "getattr self' ''hires_density'' = Inr b" "int (length b) = 512"
    by auto
  have "roomy (HII_DIM ?big ^ 3) = Too_large"
    by (simp add: roomy_def)
  with u [THEN conjunct2, THEN conjunct2, THEN conjunct2, THEN conjunct2, THEN conjunct2,
      rule_format, of ?bigself roomy]
  have big: "InitialConditions_init_boxes roomy ?bigself = Inl ValueError"
    by simp
  from ok ab have "\<exists>self' names a b.
         InitialConditions_init_boxes roomy ?self = Inr (self', names)
         \<and> getattr self' ''lowres_vz_2LPT'' = Inr a \<and> int (length a) = 8
         \<and> getattr self' ''hires_density'' = Inr b \<and> int (length b) = 512"
    by blast
  with dim px big show ?thesis
    by simp
qed

text \<open>
  Claim C9. The list \<^verbatim>\<open>InitialConditions._init_boxes\<close> returns should name exactly the
  arrays it has set on the instance. It does not: on a fresh instance for
  \<^verbatim>\<open>UserParams(HII_DIM=1)\<close>, on the platform \<open>roomy\<close>, the list holds \<^verbatim>\<open>lowre_vz_2LPT\<close>, which is no attribute of
  the instance, and the array \<^verbatim>\<open>lowres_vz_2LPT\<close> the function has set is not in the
  list.
\<close>

theorem InitialConditions_init_boxes_names_mismatch:
  "(case InitialConditions_init_boxes roomy
           \<lparr> user_params = UserParams_defaults\<lparr>HII_DIM := 1\<rparr>,
             cosmo_params = CosmoParams_defaults 0 0 0, filled = False, attrs = [] \<rparr> of
      Inl e \<Rightarrow> False
    | Inr (self, names) \<Rightarrow>
        names = [''lowres_density'', ''lowres_vz'', ''lowre_vz_2LPT'', ''hires_density'']
        \<and> map fst (attrs self) = [''lowres_density'', ''lowres_vz'', ''lowres_vz_2LPT'', ''hires_density'']
        \<and> getattr self ''lowre_vz_2LPT'' = Inl AttributeError
        \<and> getattr self ''lowres_vz_2LPT'' = Inr [0]
        \<and> ''lowres_vz_2LPT'' \<notin> set names)"
  by (simp add: InitialConditions_init_boxes_def Let_def HII_tot_num_pixels_def
        tot_fft_num_pixels_def np_zeros_def roomy_def UserParams_defaults_def DIM_def
        setattr_def getattr_def)

subsection \<open>The logarithmic astrophysical parameters\<close>

text \<open>
  Claim C7, as stated, asks that \<^verbatim>\<open>X_RAY_Tvir_MIN\<close> return 10 raised to the stored
  value whenever one was supplied. With \<^verbatim>\<open>AstroParams(False, X_RAY_Tvir_MIN=0)\<close> a value
  is stored, 10 raised to it is 1, and the property returns \<^verbatim>\<open>ION_Tvir_MIN\<close>, which is
  not 1: the test of the source is the truth value of the stored number, and zero is
  false.
\<close>

theorem X_RAY_Tvir_MIN_zero_counterexample:
  "hidden_X_RAY_Tvir_MIN ((AstroParams_defaults False)\<lparr>hidden_X_RAY_Tvir_MIN := Some 0\<rparr>) = Some 0
   \<and> X_RAY_Tvir_MIN ((AstroParams_defaults False)\<lparr>hidden_X_RAY_Tvir_MIN := Some 0\<rparr>) \<noteq> 10 powr 0
   \<and> X_RAY_Tvir_MIN ((AstroParams_defaults False)\<lparr>hidden_X_RAY_Tvir_MIN := Some 0\<rparr>)
       = ION_Tvir_MIN ((AstroParams_defaults False)\<lparr>hidden_X_RAY_Tvir_MIN := Some 0\<rparr>)"
  by (simp add: X_RAY_Tvir_MIN_def ION_Tvir_MIN_def AstroParams_defaults_def)

text \<open>
  Claim C7, amended. Reading \<^verbatim>\<open>ION_Tvir_MIN\<close> returns 10 raised to the stored value,
  and so does reading \<^verbatim>\<open>L_X\<close>. Reading \<^verbatim>\<open>X_RAY_Tvir_MIN\<close> returns 10 raised to its
  stored value when that value is a number other than zero, and the exponentiated
  \<^verbatim>\<open>ION_Tvir_MIN\<close> when it is \<^verbatim>\<open>None\<close> or zero.
\<close>

theorem log_parameters_exponentiated_on_read:
  "ION_Tvir_MIN self = 10 powr hidden_ION_Tvir_MIN self
   \<and> L_X self = 10 powr hidden_L_X self
   \<and> (\<forall>x. hidden_X_RAY_Tvir_MIN self = Some x \<and> x \<noteq> 0 \<longrightarrow> X_RAY_Tvir_MIN self = 10 powr x)
   \<and> (hidden_X_RAY_Tvir_MIN self = None \<or> hidden_X_RAY_Tvir_MIN self = Some 0 \<longrightarrow>
        X_RAY_Tvir_MIN self = 10 powr hidden_ION_Tvir_MIN self)"
  by (auto simp: X_RAY_Tvir_MIN_def ION_Tvir_MIN_def L_X_def)

text \<open>
  The theorem at \<^verbatim>\<open>AstroParams(False, ION_Tvir_MIN=3, L_X=1, X_RAY_Tvir_MIN=2)\<close> and at
  the same parameters without \<^verbatim>\<open>X_RAY_Tvir_MIN\<close>.
\<close>

theorem log_parameters_exponentiated_on_read_witness:
  "ION_Tvir_MIN ((AstroParams_defaults False)
      \<lparr>hidden_ION_Tvir_MIN := 3, hidden_L_X := 1, hidden_X_RAY_Tvir_MIN := Some 2\<rparr>) = 1000
   \<and> L_X ((AstroParams_defaults False)
      \<lparr>hidden_ION_Tvir_MIN := 3, hidden_L_X := 1, hidden_X_RAY_Tvir_MIN := Some 2\<rparr>) = 10
   \<and> X_RAY_Tvir_MIN ((AstroParams_defaults False)
      \<lparr>hidden_ION_Tvir_MIN := 3, hidden_L_X := 1, hidden_X_RAY_Tvir_MIN := Some 2\<rparr>) = 100
   \<and> X_RAY_Tvir_MIN ((AstroParams_defaults False)
      \<lparr>hidden_ION_Tvir_MIN := 3, hidden_L_X := 1\<rparr>) = 1000"
proof -
  let ?p = "(AstroParams_defaults False)
      \<lparr>hidden_ION_Tvir_MIN := 3, hidden_L_X := 1, hidden_X_RAY_Tvir_MIN := Some 2\<rparr>"
  let ?q = "(AstroParams_defaults False)\<lparr>hidden_ION_Tvir_MIN := 3, hidden_L_X := 1\<rparr>"
  have p: "hidden_X_RAY_Tvir_MIN ?p = Some 2 \<and> (2::real) \<noteq> 0"
    and q: "hidden_X_RAY_Tvir_MIN ?q = None \<or> hidden_X_RAY_Tvir_MIN ?q = Some 0"
    by (simp_all add: AstroParams_defaults_def)
  have "ION_Tvir_MIN ?p = 10 powr hidden_ION_Tvir_MIN ?p" "L_X ?p = 10 powr hidden_L_X ?p"
    using log_parameters_exponentiated_on_read [of ?p] by blast+
  moreover have "X_RAY_Tvir_MIN ?p = 10 powr 2"
    using log_parameters_exponentiated_on_read [of ?p] p by blast
  moreover have "X_RAY_Tvir_MIN ?q = 10 powr hidden_ION_Tvir_MIN ?q"
    using log_parameters_exponentiated_on_read [of ?q] q by blast
  ultimately show ?thesis
    by simp
qed

subsection \<open>The random seed\<close>

lemma RANDOM_SEED_stored:
  "v \<noteq> 0 \<Longrightarrow> hidden_RANDOM_SEED self = Some v \<Longrightarrow> RANDOM_SEED randint self g = Some (v, self, g)"
  by (subst RANDOM_SEED.simps) (simp add: truthy_int_def)

text \<open>
  Claim C10. Take a \<^verbatim>\<open>CosmoParams\<close> whose stored seed is \<^verbatim>\<open>None\<close> and a generator
  whose \<^verbatim>\<open>randint(1, 1e12)\<close> lies in the half-open range of numpy, from 1 up to but
  not 1e12. The first read of \<^verbatim>\<open>RANDOM_SEED\<close> returns: it draws one number \<open>v\<close>, stores
  it on the object and returns it, with \<open>v\<close> between 1 and 1e12 - 1. Every later read of
  the object, from any generator state, returns the same \<open>v\<close>, and leaves object and
  generator as they are.
\<close>

theorem RANDOM_SEED_drawn_once:
  assumes none: "hidden_RANDOM_SEED self = None"
    and range: "\<forall>g. 1 \<le> fst (randint 1 (10 ^ 12) g) \<and> fst (randint 1 (10 ^ 12) g) < 10 ^ 12"
  shows "\<exists>v g'. randint 1 (10 ^ 12) g = (v, g')
           \<and> RANDOM_SEED randint self g = Some (v, self\<lparr>hidden_RANDOM_SEED := Some v\<rparr>, g')
           \<and> 1 \<le> v \<and> v \<le> 10 ^ 12 - 1
           \<and> (\<forall>g''. RANDOM_SEED randint (self\<lparr>hidden_RANDOM_SEED := Some v\<rparr>) g''
                      = Some (v, self\<lparr>hidden_RANDOM_SEED := Some v\<rparr>, g''))"
proof -
  obtain v g' where draw: "randint 1 (10 ^ 12) g = (v, g')"
    by (cases "randint 1 (10 ^ 12) g")
  from range have "1 \<le> fst (randint 1 (10 ^ 12) g)" "fst (randint 1 (10 ^ 12) g) < 10 ^ 12"
    by blast+
  with draw have v: "1 \<le> v" "v \<le> 10 ^ 12 - 1"
    by simp_all
  let ?self' = "self\<lparr>hidden_RANDOM_SEED := Some v\<rparr>"
  have later: "RANDOM_SEED randint ?self' g'' = Some (v, ?self', g'')" for g''
    using v by (intro RANDOM_SEED_stored) simp_all
  have "RANDOM_SEED randint self g = RANDOM_SEED randint ?self' g'"
    using draw by (subst RANDOM_SEED.simps) (simp add: none truthy_int_def)
  with later draw v show ?thesis
    by auto
qed

text \<open>
  The theorem with a generator that counts: from state 41 the draw is 42, and a later
  read from state 7 still returns 42.
\<close>

theorem RANDOM_SEED_drawn_once_witness:
  "RANDOM_SEED (\<lambda>low high g. (low + g mod (high - low), g + 1)) (CosmoParams_defaults 0 0 0) (41::int)
     = Some (42, (CosmoParams_defaults 0 0 0)\<lparr>hidden_RANDOM_SEED := Some 42\<rparr>, 42)
   \<and> RANDOM_SEED (\<lambda>low high g. (low + g mod (high - low), g + 1))
        ((CosmoParams_defaults 0 0 0)\<lparr>hidden_RANDOM_SEED := Some 42\<rparr>) (7::int)
     = Some (42, (CosmoParams_defaults 0 0 0)\<lparr>hidden_RANDOM_SEED := Some 42\<rparr>, 7)"
proof -
  let ?r = "\<lambda>low high (g::int). (low + g mod (high - low), g + 1)"
  have none: "hidden_RANDOM_SEED (CosmoParams_defaults 0 0 0) = None"
    by (simp add: CosmoParams_defaults_def)
  have range: "\<forall>g. 1 \<le> fst (?r 1 (10 ^ 12) g) \<and> fst (?r 1 (10 ^ 12) g) < 10 ^ 12"
    by simp
  from RANDOM_SEED_drawn_once [of "CosmoParams_defaults 0 0 0" ?r 41, OF none range]
  show ?thesis
    by simp
qed

subsection \<open>Validation of the flags\<close>

text \<open>
  Claim C4. Construction of a \<^verbatim>\<open>FlagOptions\<close> should raise \<^verbatim>\<open>ValueError\<close> when
  \<^verbatim>\<open>USE_FCOLL_IONISATION_TABLE\<close> and \<^verbatim>\<open>INHOMO_RECO\<close> are both set, and should succeed
  when every flag has its default. It does neither. The first thing \<^verbatim>\<open>_logic\<close> does is
  read \<^verbatim>\<open>self.GenerateNewICs\<close>, an attribute no \<^verbatim>\<open>FlagOptions\<close> has, so \<^verbatim>\<open>_logic\<close>
  raises \<^verbatim>\<open>AttributeError\<close> on every object, whatever its flags, and so does the
  construction that runs it: with every flag at its default, and with the two flags
  set.

  Were the two attributes there, the fourth check would still not do what its message
  says. The message is that inhomogeneous recombinations need the spin temperature;
  the check raises when \<^verbatim>\<open>INHOMO_RECO\<close> and \<^verbatim>\<open>USE_TS_FLUCT\<close> are both true, and lets
  \<^verbatim>\<open>INHOMO_RECO\<close> without \<^verbatim>\<open>USE_TS_FLUCT\<close> pass.
\<close>

theorem FlagOptions_logic_raises_AttributeError:
  "logic None USE_TS_FLUCT self = Inl AttributeError
   \<and> FlagOptions_new None USE_TS_FLUCT self = Inl AttributeError
   \<and> FlagOptions_new None None FlagOptions_defaults = Inl AttributeError
   \<and> FlagOptions_new None None
         (FlagOptions_defaults\<lparr>USE_FCOLL_IONISATION_TABLE := True, INHOMO_RECO := True\<rparr>)
       = Inl AttributeError
   \<and> logic (Some False) (Some True) (FlagOptions_defaults\<lparr>INHOMO_RECO := True\<rparr>)
       = Inl ValueError
   \<and> logic (Some False) (Some False) (FlagOptions_defaults\<lparr>INHOMO_RECO := True\<rparr>)
       = Inr ()"
  by (simp add: FlagOptions_new_def logic_def getattr_bool_def FlagOptions_defaults_def)


section \<open>Properties of the wrapping functions\<close>

subsection \<open>initial_conditions\<close>

lemma trace_log_event [simp]: "trace (log_event e w) = trace w @ [e]"
  by (simp add: log_event_def)

lemma disk_log_event [simp]: "disk (log_event e w) = disk w"
  by (simp add: log_event_def)

lemma initial_conditions_compute_result:
  "initial_conditions_compute env up cp write direc fname boxes w =
     (let boxes' = boxes\<lparr>attrs := ComputeInitialConditions env up cp boxes, filled := True\<rparr>;
          w1 = log_event (Call_ComputeInitialConditions up cp boxes) w
      in (Inr boxes',
          if write
          then (log_event (Write (IC boxes') direc fname) w1)
                 \<lparr>disk := write_InitialConditions env (disk w) boxes' direc fname\<rparr>
          else w1))"
  by (simp add: initial_conditions_compute_def Let_def)

lemma initial_conditions_hit:
  assumes "InitialConditions_new (np_limits env) up cp = Inr boxes"
    and "read_InitialConditions env (disk w) boxes direc fname ms = Inr b"
  shows "initial_conditions env up cp False write direc fname ms w =
     (Inr b, log_event (Print ''Existing init_boxes found and read in.'')
               (log_event (Read (IC boxes) direc fname ms) w))"
  using assms by (simp add: initial_conditions_def Let_def)

lemma initial_conditions_miss:
  assumes "InitialConditions_new (np_limits env) up cp = Inr boxes"
    and "read_InitialConditions env (disk w) boxes direc fname ms = Inl IOError"
  shows "initial_conditions env up cp False write direc fname ms w =
     initial_conditions_compute env up cp write direc fname boxes
       (log_event (Read (IC boxes) direc fname ms) w)"
  using assms by (simp add: initial_conditions_def Let_def)

lemma InitialConditions_new_error:
  "InitialConditions_new limits up cp = Inl e \<Longrightarrow> e = ValueError \<or> e = MemoryError"
  by (auto simp: InitialConditions_new_def InitialConditions_init_boxes_def Let_def
      dest: np_zeros_error split: sum.splits)

lemma PerturbedField_new_error:
  "PerturbedField_new limits up cp z = Inl e \<Longrightarrow> e = ValueError \<or> e = MemoryError"
  by (auto simp: PerturbedField_new_def PerturbedField_init_boxes_def Let_def
      dest: np_zeros_error split: sum.splits)

lemma IonizedBox_new_error:
  "IonizedBox_new limits c up cp z ap fo = Inl e \<Longrightarrow> e = ValueError \<or> e = MemoryError"
  by (auto simp: IonizedBox_new_def IonizedBox_init_boxes_def TsBox_init_boxes_def Let_def
      dest: np_zeros_error split: sum.splits box_class.splits)

lemma initial_conditions_not_IOError:
  "fst (initial_conditions env up cp regenerate write direc fname ms w) \<noteq> Inl IOError"
  by (auto simp: initial_conditions_def initial_conditions_compute_result Let_def
      dest: InitialConditions_new_error split: sum.splits if_splits)


subsection \<open>perturb_field\<close>

lemma perturb_field_compute_result:
  "perturb_field_compute env z init_boxes write direc fname pfield w =
     (let pfield' = pfield\<lparr>attrs := ComputePerturbField env z init_boxes pfield, filled := True\<rparr>;
          w1 = log_event (Call_ComputePerturbField z init_boxes pfield) w
      in (Inr pfield',
          if write
          then (log_event (Write (PF pfield') direc fname) w1)
                 \<lparr>disk := write_PerturbedField env (disk w) pfield' direc fname\<rparr>
          else w1))"
  by (simp add: perturb_field_compute_def Let_def)

lemma perturb_field_outcomes:
  fixes env :: "'d env" and z init_boxes up cp regenerate "write" direc fname ms w
  defines "result \<equiv> perturb_field env z init_boxes up cp regenerate write direc fname ms w"
    and "up2 \<equiv> perturb_field_user_params init_boxes up"
    and "cp2 \<equiv> perturb_field_cosmo_params env init_boxes cp"
  shows "\<exists>r0 w0. perturb_field_init_boxes env init_boxes up2 cp2 regenerate write direc fname w = (r0, w0)
     \<and> ((\<exists>e. r0 = Inl e \<and> result = (Inl e, w0))
      \<or> (\<exists>ib1 e. r0 = Inr ib1 \<and> PerturbedField_new (np_limits env) up2 cp2 z = Inl e
            \<and> (e = ValueError \<or> e = MemoryError) \<and> result = (Inl e, w0))
      \<or> (\<exists>ib1 pfield. r0 = Inr ib1 \<and> PerturbedField_new (np_limits env) up2 cp2 z = Inr pfield \<and> regenerate
            \<and> result = perturb_field_compute env z ib1 write direc fname pfield w0)
      \<or> (\<exists>ib1 pfield b. r0 = Inr ib1 \<and> PerturbedField_new (np_limits env) up2 cp2 z = Inr pfield \<and> \<not> regenerate
            \<and> read_PerturbedField env (disk w0) pfield direc fname ms = Inr b
            \<and> result = (Inr b, log_event (Print ''Existing perturb_field boxes found and read in.'')
                                 (log_event (Read (PF pfield) direc fname ms) w0)))
      \<or> (\<exists>ib1 pfield. r0 = Inr ib1 \<and> PerturbedField_new (np_limits env) up2 cp2 z = Inr pfield \<and> \<not> regenerate
            \<and> read_PerturbedField env (disk w0) pfield direc fname ms = Inl IOError
            \<and> result = perturb_field_compute env z ib1 write direc fname pfield
                         (log_event (Read (PF pfield) direc fname ms) w0))
      \<or> (\<exists>ib1 pfield e. r0 = Inr ib1 \<and> PerturbedField_new (np_limits env) up2 cp2 z = Inr pfield \<and> \<not> regenerate
            \<and> read_PerturbedField env (disk w0) pfield direc fname ms = Inl e \<and> e \<noteq> IOError
            \<and> result = (Inl e, log_event (Read (PF pfield) direc fname ms) w0)))"
proof -
  obtain r0 w0
    where prev: "perturb_field_init_boxes env init_boxes up2 cp2 regenerate write direc fname w = (r0, w0)"
    by (cases "perturb_field_init_boxes env init_boxes up2 cp2 regenerate write direc fname w")
  show ?thesis
  proof (cases r0)
    case (Inl e)
    with prev show ?thesis
      by (simp add: result_def perturb_field_def Let_def up2_def cp2_def)
  next
    case ib1: (Inr ib1)
    show ?thesis
    proof (cases "PerturbedField_new (np_limits env) up2 cp2 z")
      case (Inl e)
      then have "e = ValueError \<or> e = MemoryError"
        by (rule PerturbedField_new_error)
      with Inl prev ib1 show ?thesis
        by (simp add: result_def perturb_field_def Let_def up2_def cp2_def)
    next
      case pf: (Inr pfield)
      show ?thesis
      proof (cases regenerate)
        case True
        with pf prev ib1 show ?thesis
          by (simp add: result_def perturb_field_def Let_def up2_def cp2_def)
      next
        case False
        show ?thesis
        proof (cases "read_PerturbedField env (disk w0) pfield direc fname ms")
          case (Inr b)
          with False pf prev ib1 show ?thesis
            by (simp add: result_def perturb_field_def Let_def up2_def cp2_def)
        next
          case (Inl e)
          with False pf prev ib1 show ?thesis
            by (cases "e = IOError") (simp_all add: result_def perturb_field_def Let_def up2_def cp2_def)
        qed
      qed
    qed
  qed
qed

lemma np_limits_list_cache [simp]: "np_limits list_cache = roomy"
  by (simp add: list_cache_def)

lemma InitialConditions_new_fields:
  "InitialConditions_new limits up cp = Inr b \<Longrightarrow> user_params b = up \<and> cosmo_params b = cp \<and> \<not> filled b"
  by (auto simp: InitialConditions_new_def InitialConditions_init_boxes_def setattr_def Let_def
      split: sum.splits)

lemma PerturbedField_new_fields:
  "PerturbedField_new limits up cp z = Inr b \<Longrightarrow>
     user_params b = up \<and> cosmo_params b = cp \<and> redshift b = z \<and> \<not> filled b"
  by (auto simp: PerturbedField_new_def PerturbedField_init_boxes_def setattr_def Let_def
      split: sum.splits)






lemma perturb_field_init_boxes_supplied:
  "filled ib \<Longrightarrow>
     perturb_field_init_boxes env (Some ib) up2 cp2 regenerate write direc fname w = (Inr ib, w)"
  by (simp add: perturb_field_init_boxes_def)


lemma perturb_field_init_boxes_cases:
  "perturb_field_init_boxes env init_boxes up2 cp2 regenerate write direc fname w
       = initial_conditions env up2 cp2 regenerate write direc fname False w
   \<or> (\<exists>ib. init_boxes = Some ib \<and> filled ib
        \<and> perturb_field_init_boxes env init_boxes up2 cp2 regenerate write direc fname w = (Inr ib, w))"
  by (auto simp: perturb_field_init_boxes_def split: option.splits)

lemma perturb_field_init_boxes_not_IOError:
  "fst (perturb_field_init_boxes env init_boxes up2 cp2 regenerate write direc fname w) \<noteq> Inl IOError"
  using perturb_field_init_boxes_cases [of env init_boxes up2 cp2 regenerate "write" direc fname w]
    initial_conditions_not_IOError [of env up2 cp2 regenerate "write" direc fname False w]
  by auto



lemma perturb_field_hit:
  assumes "perturb_field_init_boxes env init_boxes (perturb_field_user_params init_boxes up)
             (perturb_field_cosmo_params env init_boxes cp) False write direc fname w = (Inr ib1, w0)"
    and "PerturbedField_new (np_limits env) (perturb_field_user_params init_boxes up)
             (perturb_field_cosmo_params env init_boxes cp) z = Inr pfield"
    and "read_PerturbedField env (disk w0) pfield direc fname ms = Inr b"
  shows "perturb_field env z init_boxes up cp False write direc fname ms w =
     (Inr b, log_event (Print ''Existing perturb_field boxes found and read in.'')
               (log_event (Read (PF pfield) direc fname ms) w0))"
  using assms by (simp add: perturb_field_def Let_def)

lemma perturb_field_miss:
  assumes "perturb_field_init_boxes env init_boxes (perturb_field_user_params init_boxes up)
             (perturb_field_cosmo_params env init_boxes cp) False write direc fname w = (Inr ib1, w0)"
    and "PerturbedField_new (np_limits env) (perturb_field_user_params init_boxes up)
             (perturb_field_cosmo_params env init_boxes cp) z = Inr pfield"
    and "read_PerturbedField env (disk w0) pfield direc fname ms = Inl IOError"
  shows "perturb_field env z init_boxes up cp False write direc fname ms w =
     perturb_field_compute env z ib1 write direc fname pfield
       (log_event (Read (PF pfield) direc fname ms) w0)"
  using assms by (simp add: perturb_field_def Let_def)

lemma perturb_field_not_IOError:
  "fst (perturb_field env z init_boxes up cp regenerate write direc fname ms w) \<noteq> Inl IOError"
  using perturb_field_outcomes [of env init_boxes up cp regenerate "write" direc fname w z ms]
    perturb_field_init_boxes_not_IOError [of env init_boxes "perturb_field_user_params init_boxes up"
      "perturb_field_cosmo_params env init_boxes cp" regenerate "write" direc fname w]
  by (auto simp: perturb_field_compute_result Let_def)



lemma perturb_field_user_params:
  assumes quiet: "reads_quiet env"
    and res: "perturb_field env z init_boxes up cp regenerate write direc fname ms w = (Inr pf1, w')"
  shows "user_params pf1 = perturb_field_user_params init_boxes up"
proof -
  from quiet have keep: "read_PerturbedField env d b direc fname ms = Inr b' \<Longrightarrow>
      user_params b' = user_params b" for d b b'
    unfolding reads_quiet_def by blast
  show ?thesis
    using perturb_field_outcomes [of env init_boxes up cp regenerate "write" direc fname w z ms] res
    by (auto simp: perturb_field_compute_result Let_def
        dest!: PerturbedField_new_fields dest: keep)
qed


subsection \<open>ionize_box\<close>

lemma ionize_box_compute_result:
  "ionize_box_compute env z perturbed_field write direc fname do_spin_temp box w =
     (let box' = box\<lparr>attrs := (if \<not> do_spin_temp
                               then ComputeIonizedBox env z perturbed_field box
                               else ComputeTsBox env z perturbed_field box),
                     filled := True\<rparr>;
          w1 = log_event (if \<not> do_spin_temp
                          then Call_ComputeIonizedBox z perturbed_field box
                          else Call_ComputeTsBox z perturbed_field box) w
      in (Inr box',
          if write
          then (log_event (Write (IB box') direc fname) w1)
                 \<lparr>disk := write_IonizedBox env (disk w) box' direc fname\<rparr>
          else w1))"
  by (simp add: ionize_box_compute_def Let_def)

lemma ionize_box_perturbed_field_supplied:
  "filled pf \<Longrightarrow>
     ionize_box_perturbed_field env z (Some pf) init_boxes up cp regenerate write direc fname ms w
       = (Inr pf, w)"
  by (simp add: ionize_box_perturbed_field_def)


lemma ionize_box_perturbed_field_cases:
  "ionize_box_perturbed_field env z perturbed_field init_boxes up cp regenerate write direc fname ms w
       = perturb_field env z init_boxes up cp regenerate write direc fname ms w
   \<or> (\<exists>pf. perturbed_field = Some pf \<and> filled pf
        \<and> ionize_box_perturbed_field env z perturbed_field init_boxes up cp regenerate write direc
             fname ms w = (Inr pf, w))"
  by (auto simp: ionize_box_perturbed_field_def split: option.splits)

lemma ionize_box_perturbed_field_not_IOError:
  "fst (ionize_box_perturbed_field env z perturbed_field init_boxes up cp regenerate write direc
          fname ms w) \<noteq> Inl IOError"
  using ionize_box_perturbed_field_cases [of env z perturbed_field init_boxes up cp regenerate
      "write" direc fname ms w]
    perturb_field_not_IOError [of env z init_boxes up cp regenerate "write" direc fname ms w]
  by auto


lemma ionize_box_outcomes:
  fixes env :: "'d env" and ap fo redshift_arg perturbed_field init_boxes cp up regenerate wr
    direc fname ms do_spin_temp w z
  defines "result \<equiv> ionize_box env ap fo redshift_arg perturbed_field init_boxes cp up
                       regenerate wr direc fname ms do_spin_temp w"
    and "c \<equiv> (if \<not> do_spin_temp then IonizedBox_class else TsBox_class)"
  assumes z: "ionize_box_redshift redshift_arg perturbed_field = Inr z"
  shows "\<exists>r0 w0. ionize_box_perturbed_field env z perturbed_field init_boxes up cp
                   regenerate wr direc fname ms w = (r0, w0)
     \<and> ((\<exists>e. r0 = Inl e \<and> result = (Inl e, w0))
      \<or> (\<exists>pf1 e. r0 = Inr pf1
            \<and> IonizedBox_new (np_limits env) c (user_params pf1) (cosmo_params pf1) z ap fo = Inl e
            \<and> (e = ValueError \<or> e = MemoryError) \<and> result = (Inl e, w0))
      \<or> (\<exists>pf1 box. r0 = Inr pf1
            \<and> IonizedBox_new (np_limits env) c (user_params pf1) (cosmo_params pf1) z ap fo = Inr box
            \<and> regenerate
            \<and> result = ionize_box_compute env z pf1 wr direc fname do_spin_temp box w0)
      \<or> (\<exists>pf1 box b. r0 = Inr pf1
            \<and> IonizedBox_new (np_limits env) c (user_params pf1) (cosmo_params pf1) z ap fo = Inr box
            \<and> \<not> regenerate
            \<and> read_IonizedBox env (disk w0) box direc fname ms = Inr b
            \<and> result = (Inr b, log_event (Print ''Existing perturb_field boxes found and read in.'')
                                 (log_event (Read (IB box) direc fname ms) w0)))
      \<or> (\<exists>pf1 box. r0 = Inr pf1
            \<and> IonizedBox_new (np_limits env) c (user_params pf1) (cosmo_params pf1) z ap fo = Inr box
            \<and> \<not> regenerate
            \<and> read_IonizedBox env (disk w0) box direc fname ms = Inl IOError
            \<and> result = ionize_box_compute env z pf1 wr direc fname do_spin_temp box
                         (log_event (Read (IB box) direc fname ms) w0))
      \<or> (\<exists>pf1 box e. r0 = Inr pf1
            \<and> IonizedBox_new (np_limits env) c (user_params pf1) (cosmo_params pf1) z ap fo = Inr box
            \<and> \<not> regenerate
            \<and> read_IonizedBox env (disk w0) box direc fname ms = Inl e \<and> e \<noteq> IOError
            \<and> result = (Inl e, log_event (Read (IB box) direc fname ms) w0)))"
proof -
  obtain r0 w0
    where prev: "ionize_box_perturbed_field env z perturbed_field init_boxes up cp
                   regenerate wr direc fname ms w = (r0, w0)"
    by (cases "ionize_box_perturbed_field env z perturbed_field init_boxes up cp
                   regenerate wr direc fname ms w")
  show ?thesis
  proof (cases r0)
    case (Inl e)
    with prev z show ?thesis
      by (simp add: result_def ionize_box_def Let_def)
  next
    case pf1: (Inr pf1)
    show ?thesis
    proof (cases "IonizedBox_new (np_limits env) c (user_params pf1) (cosmo_params pf1) z ap fo")
      case (Inl e)
      then have "e = ValueError \<or> e = MemoryError"
        by (rule IonizedBox_new_error)
      with Inl prev pf1 z show ?thesis
        by (simp add: result_def ionize_box_def Let_def c_def)
    next
      case box: (Inr box)
      show ?thesis
      proof (cases regenerate)
        case True
        with box prev pf1 z show ?thesis
          by (simp add: result_def ionize_box_def Let_def c_def)
      next
        case False
        show ?thesis
        proof (cases "read_IonizedBox env (disk w0) box direc fname ms")
          case (Inr b)
          with False box prev pf1 z show ?thesis
            by (simp add: result_def ionize_box_def Let_def c_def)
        next
          case (Inl e)
          with False box prev pf1 z show ?thesis
            by (cases "e = IOError") (simp_all add: result_def ionize_box_def Let_def c_def)
        qed
      qed
    qed
  qed
qed

lemma ionize_box_no_arguments:
  "ionize_box env ap fo None None init_boxes cp up regenerate write direc fname ms do_spin_temp w
     = (Inl ValueError, w)"
  by (simp add: ionize_box_def ionize_box_redshift_def)

lemma ionize_box_redshift_cases:
  "(redshift_arg = None \<and> perturbed_field = None
      \<and> ionize_box_redshift redshift_arg perturbed_field = Inl ValueError)
   \<or> (\<exists>z. ionize_box_redshift redshift_arg perturbed_field = Inr z
        \<and> (case perturbed_field of Some pf \<Rightarrow> z = redshift pf | None \<Rightarrow> redshift_arg = Some z))"
  by (auto simp: ionize_box_redshift_def split: option.splits)

lemma ionize_box_hit:
  assumes "ionize_box_redshift redshift_arg perturbed_field = Inr z"
    and "ionize_box_perturbed_field env z perturbed_field init_boxes up cp False write direc fname
           ms w = (Inr pf1, w0)"
    and "IonizedBox_new (np_limits env) (if \<not> do_spin_temp then IonizedBox_class else TsBox_class)
           (user_params pf1) (cosmo_params pf1) z ap fo = Inr box"
    and "read_IonizedBox env (disk w0) box direc fname ms = Inr b"
  shows "ionize_box env ap fo redshift_arg perturbed_field init_boxes cp up False write direc fname
           ms do_spin_temp w =
     (Inr b, log_event (Print ''Existing perturb_field boxes found and read in.'')
               (log_event (Read (IB box) direc fname ms) w0))"
  using assms by (simp add: ionize_box_def Let_def)

lemma ionize_box_miss:
  assumes "ionize_box_redshift redshift_arg perturbed_field = Inr z"
    and "ionize_box_perturbed_field env z perturbed_field init_boxes up cp False write direc fname
           ms w = (Inr pf1, w0)"
    and "IonizedBox_new (np_limits env) (if \<not> do_spin_temp then IonizedBox_class else TsBox_class)
           (user_params pf1) (cosmo_params pf1) z ap fo = Inr box"
    and "read_IonizedBox env (disk w0) box direc fname ms = Inl IOError"
  shows "ionize_box env ap fo redshift_arg perturbed_field init_boxes cp up False write direc fname
           ms do_spin_temp w =
     ionize_box_compute env z pf1 write direc fname do_spin_temp box
       (log_event (Read (IB box) direc fname ms) w0)"
  using assms by (simp add: ionize_box_def Let_def)

lemma ionize_box_not_IOError:
  "fst (ionize_box env ap fo redshift_arg perturbed_field init_boxes cp up regenerate wr direc
          fname ms do_spin_temp w) \<noteq> Inl IOError"
proof -
  consider "redshift_arg = None" "perturbed_field = None"
    | z where "ionize_box_redshift redshift_arg perturbed_field = Inr z"
    using ionize_box_redshift_cases [of redshift_arg perturbed_field] by blast
  then show ?thesis
  proof cases
    case 1
    then show ?thesis
      by (simp add: ionize_box_no_arguments)
  next
    case 2
    show ?thesis
      using ionize_box_outcomes [OF 2, where env = env and ap = ap and fo = fo
          and init_boxes = init_boxes and cp = cp and up = up and regenerate = regenerate
          and wr = wr and direc = direc and fname = fname and ms = ms
          and do_spin_temp = do_spin_temp and w = w]
        ionize_box_perturbed_field_not_IOError [of env z perturbed_field init_boxes up cp
          regenerate wr direc fname ms w]
      by (auto simp: ionize_box_compute_result Let_def)
  qed
qed







subsection \<open>The read-through cache\<close>

text \<open>
  Claim C1, as stated, has each function return a box it has read from the cache
  without invoking the engine and without writing. \<^verbatim>\<open>perturb_field\<close> makes sure of
  initial conditions before it looks for its own box. Take a cache that holds the
  perturbed field for redshift 7 and no initial conditions (the field was written by
  \<^verbatim>\<open>perturb_field(7, init_boxes, write=True)\<close> on initial conditions computed with
  \<^verbatim>\<open>write=False\<close>). Then \<^verbatim>\<open>perturb_field(7, user_params=..., cosmo_params=...)\<close>
  with \<^verbatim>\<open>regenerate=False\<close> returns the cached field, and before that it has run
  \<^verbatim>\<open>ComputeInitialConditions\<close> and written the initial conditions.
\<close>

theorem feed_forward_computes_on_cache_hit_counterexample:
  "fst (perturb_field list_cache 7 None (Some one_cell) (Some seeded) False True None None False
          \<lparr> disk = [PF \<lparr> user_params = one_cell, cosmo_params = seeded, filled = True,
                          attrs = [(''density'', [1]), (''velocity'', [1])], redshift = 7 \<rparr>],
            trace = [] \<rparr>)
     = Inr \<lparr> user_params = one_cell, cosmo_params = seeded, filled = True,
             attrs = [(''density'', [1]), (''velocity'', [1])], redshift = 7 \<rparr>
   \<and> map event_name (trace (snd
         (perturb_field list_cache 7 None (Some one_cell) (Some seeded) False True None None False
            \<lparr> disk = [PF \<lparr> user_params = one_cell, cosmo_params = seeded, filled = True,
                            attrs = [(''density'', [1]), (''velocity'', [1])], redshift = 7 \<rparr>],
              trace = [] \<rparr>)))
     = [''read InitialConditions'', ''ComputeInitialConditions'', ''write InitialConditions'',
        ''read PerturbedField'', ''print'']"
  by (simp add: list_cache_def CosmoParams_defaults_def
      InitialConditions_new_def InitialConditions_init_boxes_def PerturbedField_new_def
      PerturbedField_init_boxes_def np_zeros_def roomy_def setattr_def HII_tot_num_pixels_def
      tot_fft_num_pixels_def DIM_def Let_def one_cell_def
      initial_conditions_def initial_conditions_compute_def perturb_field_def
      perturb_field_init_boxes_def perturb_field_user_params_def perturb_field_cosmo_params_def
      log_event_def ones_def)

text \<open>
  Claim C1, amended. Each of the three functions, called with \<^verbatim>\<open>regenerate=False\<close>
  and once its output object is constructed:
  \<^item> if the read of that object succeeds, returns the object as read, and beyond what
    the step for the earlier stage has done it only reads and prints: it does not
    invoke its own engine routine and does not write its object;
  \<^item> if the read raises \<^verbatim>\<open>IOError\<close>, invokes the engine routine of its stage on the
    object, sets \<^verbatim>\<open>filled\<close>, writes the object exactly when \<^verbatim>\<open>write\<close> is set, and
    returns it.

  \<^verbatim>\<open>initial_conditions\<close> has no earlier stage. For \<^verbatim>\<open>perturb_field\<close> given filled
  \<^verbatim>\<open>init_boxes\<close>, and for \<^verbatim>\<open>ionize_box\<close> given a filled \<^verbatim>\<open>perturbed_field\<close>, the
  step for the earlier stage returns what was given and leaves the world as it is, so
  a successful read then means no engine call and no write at all. Otherwise the
  earlier stage is run first, and may compute and write.
\<close>

theorem read_through_cache:
  fixes env :: "'d env"
  shows
  "(\<forall>boxes. InitialConditions_new (np_limits env) up cp = Inr boxes \<longrightarrow>
      (\<forall>b. read_InitialConditions env (disk w) boxes direc fname ms = Inr b \<longrightarrow>
         initial_conditions env up cp False wr direc fname ms w
           = (Inr b, log_event (Print ''Existing init_boxes found and read in.'')
                       (log_event (Read (IC boxes) direc fname ms) w)))
    \<and> (read_InitialConditions env (disk w) boxes direc fname ms = Inl IOError \<longrightarrow>
         initial_conditions env up cp False wr direc fname ms w
           = (let boxes' = boxes\<lparr>attrs := ComputeInitialConditions env up cp boxes, filled := True\<rparr>;
                  w1 = log_event (Call_ComputeInitialConditions up cp boxes)
                         (log_event (Read (IC boxes) direc fname ms) w)
              in (Inr boxes',
                  if wr
                  then (log_event (Write (IC boxes') direc fname) w1)
                         \<lparr>disk := write_InitialConditions env (disk w) boxes' direc fname\<rparr>
                  else w1))))
   \<and> (\<forall>ib1 w0 pfield.
        perturb_field_init_boxes env init_boxes (perturb_field_user_params init_boxes up_arg)
          (perturb_field_cosmo_params env init_boxes cp_arg) False wr direc fname w = (Inr ib1, w0)
        \<and> PerturbedField_new (np_limits env) (perturb_field_user_params init_boxes up_arg)
            (perturb_field_cosmo_params env init_boxes cp_arg) z = Inr pfield \<longrightarrow>
      (\<forall>b. read_PerturbedField env (disk w0) pfield direc fname ms = Inr b \<longrightarrow>
         perturb_field env z init_boxes up_arg cp_arg False wr direc fname ms w
           = (Inr b, log_event (Print ''Existing perturb_field boxes found and read in.'')
                       (log_event (Read (PF pfield) direc fname ms) w0)))
    \<and> (read_PerturbedField env (disk w0) pfield direc fname ms = Inl IOError \<longrightarrow>
         perturb_field env z init_boxes up_arg cp_arg False wr direc fname ms w
           = (let pfield' = pfield\<lparr>attrs := ComputePerturbField env z ib1 pfield, filled := True\<rparr>;
                  w1 = log_event (Call_ComputePerturbField z ib1 pfield)
                         (log_event (Read (PF pfield) direc fname ms) w0)
              in (Inr pfield',
                  if wr
                  then (log_event (Write (PF pfield') direc fname) w1)
                         \<lparr>disk := write_PerturbedField env (disk w0) pfield' direc fname\<rparr>
                  else w1))))
   \<and> (\<forall>ib. init_boxes = Some ib \<and> filled ib \<longrightarrow>
        perturb_field_init_boxes env init_boxes (perturb_field_user_params init_boxes up_arg)
          (perturb_field_cosmo_params env init_boxes cp_arg) False wr direc fname w = (Inr ib, w))
   \<and> (\<forall>zz pf1 w0 box.
        ionize_box_redshift redshift_arg perturbed_field = Inr zz
        \<and> ionize_box_perturbed_field env zz perturbed_field init_boxes up_arg cp_arg False wr
            direc fname ms w = (Inr pf1, w0)
        \<and> IonizedBox_new (np_limits env) (if \<not> do_spin_temp then IonizedBox_class else TsBox_class)
            (user_params pf1) (cosmo_params pf1) zz ap fo = Inr box \<longrightarrow>
      (\<forall>b. read_IonizedBox env (disk w0) box direc fname ms = Inr b \<longrightarrow>
         ionize_box env ap fo redshift_arg perturbed_field init_boxes cp_arg up_arg False wr direc
             fname ms do_spin_temp w
           = (Inr b, log_event (Print ''Existing perturb_field boxes found and read in.'')
                       (log_event (Read (IB box) direc fname ms) w0)))
    \<and> (read_IonizedBox env (disk w0) box direc fname ms = Inl IOError \<longrightarrow>
         ionize_box env ap fo redshift_arg perturbed_field init_boxes cp_arg up_arg False wr direc
             fname ms do_spin_temp w
           = (let box' = box\<lparr>attrs := (if \<not> do_spin_temp
                                         then ComputeIonizedBox env zz pf1 box
                                         else ComputeTsBox env zz pf1 box),
                             filled := True\<rparr>;
                  w1 = log_event (if \<not> do_spin_temp
                                  then Call_ComputeIonizedBox zz pf1 box
                                  else Call_ComputeTsBox zz pf1 box)
                         (log_event (Read (IB box) direc fname ms) w0)
              in (Inr box',
                  if wr
                  then (log_event (Write (IB box') direc fname) w1)
                         \<lparr>disk := write_IonizedBox env (disk w0) box' direc fname\<rparr>
                  else w1))))
   \<and> (\<forall>zz pf. perturbed_field = Some pf \<and> filled pf \<longrightarrow>
        ionize_box_perturbed_field env zz perturbed_field init_boxes up_arg cp_arg False wr
          direc fname ms w = (Inr pf, w))"
proof (intro conjI allI impI; (elim conjE)?)
  fix boxes b
  assume "InitialConditions_new (np_limits env) up cp = Inr boxes"
    and "read_InitialConditions env (disk w) boxes direc fname ms = Inr b"
  then show "initial_conditions env up cp False wr direc fname ms w
           = (Inr b, log_event (Print ''Existing init_boxes found and read in.'')
                       (log_event (Read (IC boxes) direc fname ms) w))"
    by (rule initial_conditions_hit)
next
  fix boxes
  assume "InitialConditions_new (np_limits env) up cp = Inr boxes"
    and "read_InitialConditions env (disk w) boxes direc fname ms = Inl IOError"
  then show "initial_conditions env up cp False wr direc fname ms w
           = (let boxes' = boxes\<lparr>attrs := ComputeInitialConditions env up cp boxes, filled := True\<rparr>;
                  w1 = log_event (Call_ComputeInitialConditions up cp boxes)
                         (log_event (Read (IC boxes) direc fname ms) w)
              in (Inr boxes',
                  if wr
                  then (log_event (Write (IC boxes') direc fname) w1)
                         \<lparr>disk := write_InitialConditions env (disk w) boxes' direc fname\<rparr>
                  else w1))"
    by (simp add: initial_conditions_miss initial_conditions_compute_result Let_def)
next
  fix ib1 w0 pfield b
  assume "perturb_field_init_boxes env init_boxes (perturb_field_user_params init_boxes up_arg)
          (perturb_field_cosmo_params env init_boxes cp_arg) False wr direc fname w = (Inr ib1, w0)"
    and "PerturbedField_new (np_limits env) (perturb_field_user_params init_boxes up_arg)
            (perturb_field_cosmo_params env init_boxes cp_arg) z = Inr pfield"
    and "read_PerturbedField env (disk w0) pfield direc fname ms = Inr b"
  then show "perturb_field env z init_boxes up_arg cp_arg False wr direc fname ms w
           = (Inr b, log_event (Print ''Existing perturb_field boxes found and read in.'')
                       (log_event (Read (PF pfield) direc fname ms) w0))"
    by (rule perturb_field_hit)
next
  fix ib1 w0 pfield
  assume "perturb_field_init_boxes env init_boxes (perturb_field_user_params init_boxes up_arg)
          (perturb_field_cosmo_params env init_boxes cp_arg) False wr direc fname w = (Inr ib1, w0)"
    and "PerturbedField_new (np_limits env) (perturb_field_user_params init_boxes up_arg)
            (perturb_field_cosmo_params env init_boxes cp_arg) z = Inr pfield"
    and "read_PerturbedField env (disk w0) pfield direc fname ms = Inl IOError"
  then show "perturb_field env z init_boxes up_arg cp_arg False wr direc fname ms w
           = (let pfield' = pfield\<lparr>attrs := ComputePerturbField env z ib1 pfield, filled := True\<rparr>;
                  w1 = log_event (Call_ComputePerturbField z ib1 pfield)
                         (log_event (Read (PF pfield) direc fname ms) w0)
              in (Inr pfield',
                  if wr
                  then (log_event (Write (PF pfield') direc fname) w1)
                         \<lparr>disk := write_PerturbedField env (disk w0) pfield' direc fname\<rparr>
                  else w1))"
    by (simp add: perturb_field_miss perturb_field_compute_result Let_def)
next
  fix ib
  assume "init_boxes = Some ib" and "filled ib"
  then show "perturb_field_init_boxes env init_boxes (perturb_field_user_params init_boxes up_arg)
          (perturb_field_cosmo_params env init_boxes cp_arg) False wr direc fname w = (Inr ib, w)"
    by (simp add: perturb_field_init_boxes_supplied)
next
  fix zz pf1 w0 box b
  assume "ionize_box_redshift redshift_arg perturbed_field = Inr zz"
    and "ionize_box_perturbed_field env zz perturbed_field init_boxes up_arg cp_arg False wr
            direc fname ms w = (Inr pf1, w0)"
    and "IonizedBox_new (np_limits env) (if \<not> do_spin_temp then IonizedBox_class else TsBox_class)
            (user_params pf1) (cosmo_params pf1) zz ap fo = Inr box"
    and "read_IonizedBox env (disk w0) box direc fname ms = Inr b"
  then show "ionize_box env ap fo redshift_arg perturbed_field init_boxes cp_arg up_arg False wr direc
             fname ms do_spin_temp w
           = (Inr b, log_event (Print ''Existing perturb_field boxes found and read in.'')
                       (log_event (Read (IB box) direc fname ms) w0))"
    by (rule ionize_box_hit)
next
  fix zz pf1 w0 box
  assume "ionize_box_redshift redshift_arg perturbed_field = Inr zz"
    and "ionize_box_perturbed_field env zz perturbed_field init_boxes up_arg cp_arg False wr
            direc fname ms w = (Inr pf1, w0)"
    and "IonizedBox_new (np_limits env) (if \<not> do_spin_temp then IonizedBox_class else TsBox_class)
            (user_params pf1) (cosmo_params pf1) zz ap fo = Inr box"
    and "read_IonizedBox env (disk w0) box direc fname ms = Inl IOError"
  then show "ionize_box env ap fo redshift_arg perturbed_field init_boxes cp_arg up_arg False wr direc
             fname ms do_spin_temp w
           = (let box' = box\<lparr>attrs := (if \<not> do_spin_temp
                                         then ComputeIonizedBox env zz pf1 box
                                         else ComputeTsBox env zz pf1 box),
                             filled := True\<rparr>;
                  w1 = log_event (if \<not> do_spin_temp
                                  then Call_ComputeIonizedBox zz pf1 box
                                  else Call_ComputeTsBox zz pf1 box)
                         (log_event (Read (IB box) direc fname ms) w0)
              in (Inr box',
                  if wr
                  then (log_event (Write (IB box') direc fname) w1)
                         \<lparr>disk := write_IonizedBox env (disk w0) box' direc fname\<rparr>
                  else w1))"
    by (simp add: ionize_box_miss ionize_box_compute_result Let_def)
next
  fix zz pf
  assume "perturbed_field = Some pf" and "filled pf"
  then show "ionize_box_perturbed_field env zz perturbed_field init_boxes up_arg cp_arg False wr
          direc fname ms w = (Inr pf, w)"
    by (simp add: ionize_box_perturbed_field_supplied)
qed

text \<open>
  The theorem on the list cache, for a grid of one cell: \<^verbatim>\<open>initial_conditions\<close> on
  an empty cache and on one that holds the initial conditions; \<^verbatim>\<open>perturb_field\<close>
  given filled initial conditions, on an empty cache (with \<^verbatim>\<open>write=False\<close>) and on
  one that holds the field; \<^verbatim>\<open>ionize_box\<close> given a filled perturbed field of redshift
  7 and the redshift 9, with spin temperature on an empty cache and without on a cache
  that holds the box.
\<close>

lemmas new_defs = InitialConditions_new_def InitialConditions_init_boxes_def PerturbedField_new_def
  PerturbedField_init_boxes_def IonizedBox_new_def IonizedBox_init_boxes_def TsBox_init_boxes_def
  np_zeros_def roomy_def setattr_def HII_tot_num_pixels_def tot_fft_num_pixels_def DIM_def Let_def
  one_cell_def

theorem read_through_cache_witness:
  "map event_name (trace (snd
      (initial_conditions list_cache one_cell seeded False True None None False
         \<lparr> disk = [], trace = [] \<rparr>)))
     = [''read InitialConditions'', ''ComputeInitialConditions'', ''write InitialConditions'']
   \<and> map event_name (trace (snd
      (initial_conditions list_cache one_cell seeded False True None None False
         \<lparr> disk = [IC \<lparr> user_params = one_cell, cosmo_params = seeded, filled = True,
                         attrs = [] \<rparr>], trace = [] \<rparr>)))
     = [''read InitialConditions'', ''print'']
   \<and> map event_name (trace (snd
      (perturb_field list_cache 7
         (Some \<lparr> user_params = one_cell, cosmo_params = seeded, filled = True, attrs = [] \<rparr>)
         None None False False None None False \<lparr> disk = [], trace = [] \<rparr>)))
     = [''read PerturbedField'', ''ComputePerturbField'']
   \<and> map event_name (trace (snd
      (perturb_field list_cache 7
         (Some \<lparr> user_params = one_cell, cosmo_params = seeded, filled = True, attrs = [] \<rparr>)
         None None False True None None False
         \<lparr> disk = [PF \<lparr> user_params = one_cell, cosmo_params = seeded, filled = True,
                         attrs = [], redshift = 7 \<rparr>], trace = [] \<rparr>)))
     = [''read PerturbedField'', ''print'']
   \<and> map event_name (trace (snd
      (ionize_box list_cache (AstroParams_defaults False) FlagOptions_defaults (Some 9)
         (Some \<lparr> user_params = one_cell, cosmo_params = seeded, filled = True, attrs = [],
                 redshift = 7 \<rparr>)
         None None None False True None None False True \<lparr> disk = [], trace = [] \<rparr>)))
     = [''read IonizedBox'', ''ComputeTsBox'', ''write IonizedBox'']
   \<and> map event_name (trace (snd
      (ionize_box list_cache (AstroParams_defaults False) FlagOptions_defaults (Some 9)
         (Some \<lparr> user_params = one_cell, cosmo_params = seeded, filled = True, attrs = [],
                 redshift = 7 \<rparr>)
         None None None False True None None False False
         \<lparr> disk = [IB \<lparr> user_params = one_cell, cosmo_params = seeded, filled = True,
                         attrs = [], redshift = 7, astro_params = AstroParams_defaults False,
                         flag_options = FlagOptions_defaults, cls = IonizedBox_class \<rparr>],
           trace = [] \<rparr>)))
     = [''read IonizedBox'', ''print'']"
proof -
  let ?e = "\<lparr> disk = ([] :: box list), trace = [] \<rparr>"
  let ?ic = "\<lparr> user_params = one_cell, cosmo_params = seeded, filled = True, attrs = [] \<rparr>"
  let ?pf = "\<lparr> user_params = one_cell, cosmo_params = seeded, filled = True, attrs = [],
                redshift = 7 \<rparr>"
  let ?ib = "\<lparr> user_params = one_cell, cosmo_params = seeded, filled = True,
                attrs = [], redshift = 7, astro_params = AstroParams_defaults False,
                flag_options = FlagOptions_defaults, cls = IonizedBox_class \<rparr>"
  let ?wic = "\<lparr> disk = [IC ?ic], trace = [] \<rparr>"
  let ?wpf = "\<lparr> disk = [PF ?pf], trace = [] \<rparr>"
  let ?wib = "\<lparr> disk = [IB ?ib], trace = [] \<rparr>"
  obtain ic0 where ic0: "InitialConditions_new (np_limits list_cache) one_cell seeded = Inr ic0"
    "user_params ic0 = one_cell" "cosmo_params ic0 = seeded"
    by (simp add: new_defs)
  obtain pf0 where pf0: "PerturbedField_new (np_limits list_cache) one_cell seeded 7 = Inr pf0"
    "user_params pf0 = one_cell" "cosmo_params pf0 = seeded" "redshift pf0 = 7"
    by (simp add: new_defs)
  obtain ts0 where ts0: "IonizedBox_new (np_limits list_cache) TsBox_class one_cell seeded 7 (AstroParams_defaults False)
      FlagOptions_defaults = Inr ts0"
    by (simp add: new_defs)
  obtain ib0 where ib0: "IonizedBox_new (np_limits list_cache) IonizedBox_class one_cell seeded 7 (AstroParams_defaults False)
      FlagOptions_defaults = Inr ib0"
    "user_params ib0 = one_cell" "cosmo_params ib0 = seeded" "redshift ib0 = 7"
    "astro_params ib0 = AstroParams_defaults False" "flag_options ib0 = FlagOptions_defaults"
    "cls ib0 = IonizedBox_class"
    by (simp add: new_defs)

  note ic_miss = read_through_cache [where env = list_cache and up = one_cell and cp = seeded
      and w = ?e and direc = None and fname = None and ms = False and wr = True,
      THEN conjunct1, rule_format, OF ic0(1), THEN conjunct2, rule_format]
  have "read_InitialConditions list_cache (disk ?e) ic0 None None False = Inl IOError"
    by (simp add: list_cache_def)
  from ic_miss [OF this]
  have 1: "map event_name (trace (snd
      (initial_conditions list_cache one_cell seeded False True None None False ?e)))
     = [''read InitialConditions'', ''ComputeInitialConditions'', ''write InitialConditions'']"
    by (simp add: Let_def)

  note ic_hit = read_through_cache [where env = list_cache and up = one_cell and cp = seeded
      and w = ?wic and direc = None and fname = None and ms = False and wr = True,
      THEN conjunct1, rule_format, OF ic0(1), THEN conjunct1, rule_format]
  have "read_InitialConditions list_cache (disk ?wic) ic0 None None False = Inr ?ic"
    using ic0 by (simp add: list_cache_def)
  from ic_hit [OF this]
  have 2: "map event_name (trace (snd
      (initial_conditions list_cache one_cell seeded False True None None False ?wic)))
     = [''read InitialConditions'', ''print'']"
    by simp


  note pf_part = read_through_cache [where env = list_cache and init_boxes = "Some ?ic"
      and up_arg = None and cp_arg = None and z = 7 and direc = None and fname = None
      and ms = False]
  have pf_new: "PerturbedField_new (np_limits list_cache) (perturb_field_user_params (Some ?ic) None)
      (perturb_field_cosmo_params list_cache (Some ?ic) None) 7 = Inr pf0"
    using pf0 by (simp add: perturb_field_user_params_def perturb_field_cosmo_params_def)

  have prev3: "perturb_field_init_boxes list_cache (Some ?ic) (perturb_field_user_params (Some ?ic) None)
      (perturb_field_cosmo_params list_cache (Some ?ic) None) False False None None ?e = (Inr ?ic, ?e)"
    using pf_part [where w = ?e and wr = False, THEN conjunct2, THEN conjunct2, THEN conjunct1]
    by simp
  have "read_PerturbedField list_cache (disk ?e) pf0 None None False = Inl IOError"
    by (simp add: list_cache_def)
  from pf_part [where w = ?e and wr = False, THEN conjunct2, THEN conjunct1, rule_format,
      OF conjI [OF prev3 pf_new], THEN conjunct2, rule_format, OF this]
  have 3: "map event_name (trace (snd
      (perturb_field list_cache 7 (Some ?ic) None None False False None None False ?e)))
     = [''read PerturbedField'', ''ComputePerturbField'']"
    by (simp add: Let_def)

  have prev4: "perturb_field_init_boxes list_cache (Some ?ic) (perturb_field_user_params (Some ?ic) None)
      (perturb_field_cosmo_params list_cache (Some ?ic) None) False True None None ?wpf = (Inr ?ic, ?wpf)"
    using pf_part [where w = ?wpf and wr = True, THEN conjunct2, THEN conjunct2, THEN conjunct1]
    by simp
  have "read_PerturbedField list_cache (disk ?wpf) pf0 None None False = Inr ?pf"
    using pf0 by (simp add: list_cache_def)
  from pf_part [where w = ?wpf and wr = True, THEN conjunct2, THEN conjunct1, rule_format,
      OF conjI [OF prev4 pf_new], THEN conjunct1, rule_format, OF this]
  have 4: "map event_name (trace (snd
      (perturb_field list_cache 7 (Some ?ic) None None False True None None False ?wpf)))
     = [''read PerturbedField'', ''print'']"
    by simp

  note ib_part = read_through_cache [where env = list_cache and perturbed_field = "Some ?pf"
      and redshift_arg = "Some 9" and init_boxes = None and up_arg = None and cp_arg = None
      and direc = None and fname = None and ms = False and wr = True
      and ap = "AstroParams_defaults False" and fo = FlagOptions_defaults]
  have zz: "ionize_box_redshift (Some 9) (Some ?pf) = Inr 7"
    by (simp add: ionize_box_redshift_def)

  have prev5: "ionize_box_perturbed_field list_cache 7 (Some ?pf) None None None False True None None
      False ?e = (Inr ?pf, ?e)"
    using ib_part [where w = ?e, THEN conjunct2, THEN conjunct2, THEN conjunct2, THEN conjunct2]
    by simp
  have new5: "IonizedBox_new (np_limits list_cache) (if \<not> True then IonizedBox_class else TsBox_class)
      (user_params ?pf) (cosmo_params ?pf) 7 (AstroParams_defaults False) FlagOptions_defaults
      = Inr ts0"
    using ts0 by simp
  have "read_IonizedBox list_cache (disk ?e) ts0 None None False = Inl IOError"
    by (simp add: list_cache_def)
  from ib_part [where w = ?e and do_spin_temp = True, THEN conjunct2, THEN conjunct2,
      THEN conjunct2, THEN conjunct1, rule_format, OF conjI [OF zz conjI [OF prev5 new5]],
      THEN conjunct2, rule_format, OF this]
  have 5: "map event_name (trace (snd
      (ionize_box list_cache (AstroParams_defaults False) FlagOptions_defaults (Some 9) (Some ?pf)
         None None None False True None None False True ?e)))
     = [''read IonizedBox'', ''ComputeTsBox'', ''write IonizedBox'']"
    by (simp add: Let_def)

  have prev6: "ionize_box_perturbed_field list_cache 7 (Some ?pf) None None None False True None None
      False ?wib = (Inr ?pf, ?wib)"
    using ib_part [where w = ?wib, THEN conjunct2, THEN conjunct2, THEN conjunct2, THEN conjunct2]
    by simp
  have new6: "IonizedBox_new (np_limits list_cache) (if \<not> False then IonizedBox_class else TsBox_class)
      (user_params ?pf) (cosmo_params ?pf) 7 (AstroParams_defaults False) FlagOptions_defaults
      = Inr ib0"
    using ib0 by simp
  have "read_IonizedBox list_cache (disk ?wib) ib0 None None False = Inr ?ib"
    using ib0 by (simp add: list_cache_def)
  from ib_part [where w = ?wib and do_spin_temp = False, THEN conjunct2, THEN conjunct2,
      THEN conjunct2, THEN conjunct1, rule_format, OF conjI [OF zz conjI [OF prev6 new6]],
      THEN conjunct1, rule_format, OF this]
  have 6: "map event_name (trace (snd
      (ionize_box list_cache (AstroParams_defaults False) FlagOptions_defaults (Some 9) (Some ?pf)
         None None None False True None None False False ?wib)))
     = [''read IonizedBox'', ''print'']"
    by simp

  from 1 2 3 4 5 6 show ?thesis
    by (intro conjI)
qed

subsection \<open>A cache miss is not an error\<close>

text \<open>
  Claim C2. None of the three functions ever raises \<^verbatim>\<open>IOError\<close> to its caller,
  whatever its arguments and whatever the reads do. And when the read of a function's
  own object raises \<^verbatim>\<open>IOError\<close> (the function called with \<^verbatim>\<open>regenerate=False\<close>, its
  object constructed, the earlier stage there), the function goes on to the engine: it
  returns a filled object, and the call of its engine routine on the object it had
  constructed is in the trace.
\<close>

theorem cache_miss_is_caught:
  fixes env :: "'d env"
  shows
  "fst (initial_conditions env up cp regenerate wr direc fname ms w) \<noteq> Inl IOError
   \<and> fst (perturb_field env z init_boxes up_arg cp_arg regenerate wr direc fname ms w) \<noteq> Inl IOError
   \<and> fst (ionize_box env ap fo redshift_arg perturbed_field init_boxes cp_arg up_arg regenerate wr
            direc fname ms do_spin_temp w) \<noteq> Inl IOError
   \<and> (\<forall>boxes.
         InitialConditions_new (np_limits env) up cp = Inr boxes
         \<and> read_InitialConditions env (disk w) boxes direc fname ms = Inl IOError \<longrightarrow>
         (\<exists>b w'. initial_conditions env up cp False wr direc fname ms w = (Inr b, w')
            \<and> filled b \<and> Call_ComputeInitialConditions up cp boxes \<in> set (trace w')))
   \<and> (\<forall>ib1 w0 pfield.
         perturb_field_init_boxes env init_boxes (perturb_field_user_params init_boxes up_arg)
           (perturb_field_cosmo_params env init_boxes cp_arg) False wr direc fname w = (Inr ib1, w0)
         \<and> PerturbedField_new (np_limits env) (perturb_field_user_params init_boxes up_arg)
             (perturb_field_cosmo_params env init_boxes cp_arg) z = Inr pfield
         \<and> read_PerturbedField env (disk w0) pfield direc fname ms = Inl IOError \<longrightarrow>
         (\<exists>b w'. perturb_field env z init_boxes up_arg cp_arg False wr direc fname ms w = (Inr b, w')
            \<and> filled b \<and> Call_ComputePerturbField z ib1 pfield \<in> set (trace w')))
   \<and> (\<forall>zz pf1 w0 box.
         ionize_box_redshift redshift_arg perturbed_field = Inr zz
         \<and> ionize_box_perturbed_field env zz perturbed_field init_boxes up_arg cp_arg False wr
             direc fname ms w = (Inr pf1, w0)
         \<and> IonizedBox_new (np_limits env) (if \<not> do_spin_temp then IonizedBox_class else TsBox_class)
             (user_params pf1) (cosmo_params pf1) zz ap fo = Inr box
         \<and> read_IonizedBox env (disk w0) box direc fname ms = Inl IOError \<longrightarrow>
         (\<exists>b w'. ionize_box env ap fo redshift_arg perturbed_field init_boxes cp_arg up_arg False wr
                    direc fname ms do_spin_temp w = (Inr b, w')
            \<and> filled b
            \<and> (if \<not> do_spin_temp then Call_ComputeIonizedBox zz pf1 box
                else Call_ComputeTsBox zz pf1 box) \<in> set (trace w')))"
proof (intro conjI allI impI; (elim conjE)?)
  show "fst (initial_conditions env up cp regenerate wr direc fname ms w) \<noteq> Inl IOError"
    by (rule initial_conditions_not_IOError)
  show "fst (perturb_field env z init_boxes up_arg cp_arg regenerate wr direc fname ms w) \<noteq> Inl IOError"
    by (rule perturb_field_not_IOError)
  show "fst (ionize_box env ap fo redshift_arg perturbed_field init_boxes cp_arg up_arg regenerate wr
            direc fname ms do_spin_temp w) \<noteq> Inl IOError"
    by (rule ionize_box_not_IOError)
next
  fix boxes
  assume "InitialConditions_new (np_limits env) up cp = Inr boxes"
    and "read_InitialConditions env (disk w) boxes direc fname ms = Inl IOError"
  then show "\<exists>b w'. initial_conditions env up cp False wr direc fname ms w = (Inr b, w')
            \<and> filled b \<and> Call_ComputeInitialConditions up cp boxes \<in> set (trace w')"
    by (simp add: initial_conditions_miss initial_conditions_compute_result Let_def)
next
  fix ib1 w0 pfield
  assume "perturb_field_init_boxes env init_boxes (perturb_field_user_params init_boxes up_arg)
           (perturb_field_cosmo_params env init_boxes cp_arg) False wr direc fname w = (Inr ib1, w0)"
    and "PerturbedField_new (np_limits env) (perturb_field_user_params init_boxes up_arg)
             (perturb_field_cosmo_params env init_boxes cp_arg) z = Inr pfield"
    and "read_PerturbedField env (disk w0) pfield direc fname ms = Inl IOError"
  then show "\<exists>b w'. perturb_field env z init_boxes up_arg cp_arg False wr direc fname ms w = (Inr b, w')
            \<and> filled b \<and> Call_ComputePerturbField z ib1 pfield \<in> set (trace w')"
    by (simp add: perturb_field_miss perturb_field_compute_result Let_def)
next
  fix zz pf1 w0 box
  assume "ionize_box_redshift redshift_arg perturbed_field = Inr zz"
    and "ionize_box_perturbed_field env zz perturbed_field init_boxes up_arg cp_arg False wr
             direc fname ms w = (Inr pf1, w0)"
    and "IonizedBox_new (np_limits env) (if \<not> do_spin_temp then IonizedBox_class else TsBox_class)
             (user_params pf1) (cosmo_params pf1) zz ap fo = Inr box"
    and "read_IonizedBox env (disk w0) box direc fname ms = Inl IOError"
  then show "\<exists>b w'. ionize_box env ap fo redshift_arg perturbed_field init_boxes cp_arg up_arg False wr
                    direc fname ms do_spin_temp w = (Inr b, w')
            \<and> filled b
            \<and> (if \<not> do_spin_temp then Call_ComputeIonizedBox zz pf1 box
                else Call_ComputeTsBox zz pf1 box) \<in> set (trace w')"
    by (simp add: ionize_box_miss ionize_box_compute_result Let_def)
qed

text \<open>
  The theorem on the empty list cache, where every read misses:
  \<^verbatim>\<open>initial_conditions\<close>, \<^verbatim>\<open>perturb_field\<close> given filled initial conditions, and
  \<^verbatim>\<open>ionize_box\<close> given a filled perturbed field.
\<close>

theorem cache_miss_is_caught_witness:
  "(\<exists>boxes b w'.
      InitialConditions_new (np_limits list_cache) one_cell seeded = Inr boxes
      \<and> initial_conditions list_cache one_cell seeded False True None None False
            \<lparr> disk = [], trace = [] \<rparr> = (Inr b, w')
      \<and> filled b \<and> Call_ComputeInitialConditions one_cell seeded boxes \<in> set (trace w'))
   \<and> (\<exists>pfield b w'.
      PerturbedField_new (np_limits list_cache) one_cell seeded 7 = Inr pfield
      \<and> perturb_field list_cache 7
            (Some \<lparr> user_params = one_cell, cosmo_params = seeded, filled = True, attrs = [] \<rparr>)
            None None False True None None False \<lparr> disk = [], trace = [] \<rparr> = (Inr b, w')
      \<and> filled b
      \<and> Call_ComputePerturbField 7
            \<lparr> user_params = one_cell, cosmo_params = seeded, filled = True, attrs = [] \<rparr> pfield
          \<in> set (trace w'))
   \<and> (\<exists>box b w'.
      IonizedBox_new (np_limits list_cache) IonizedBox_class one_cell seeded 7 (AstroParams_defaults False)
        FlagOptions_defaults = Inr box
      \<and> ionize_box list_cache (AstroParams_defaults False) FlagOptions_defaults None
            (Some \<lparr> user_params = one_cell, cosmo_params = seeded, filled = True, attrs = [],
                    redshift = 7 \<rparr>)
            (Some \<lparr> user_params = one_cell, cosmo_params = seeded, filled = True, attrs = [] \<rparr>)
            None None False True None None False False \<lparr> disk = [], trace = [] \<rparr> = (Inr b, w')
      \<and> filled b
      \<and> Call_ComputeIonizedBox 7
            \<lparr> user_params = one_cell, cosmo_params = seeded, filled = True, attrs = [],
              redshift = 7 \<rparr> box
          \<in> set (trace w'))
   \<and> fst (ionize_box list_cache (AstroParams_defaults False) FlagOptions_defaults None
            (Some \<lparr> user_params = one_cell, cosmo_params = seeded, filled = True, attrs = [],
                    redshift = 7 \<rparr>)
            (Some \<lparr> user_params = one_cell, cosmo_params = seeded, filled = True, attrs = [] \<rparr>)
            None None False True None None False False \<lparr> disk = [], trace = [] \<rparr>)
         \<noteq> Inl IOError"
proof -
  let ?e = "\<lparr> disk = ([] :: box list), trace = [] \<rparr>"
  let ?ap = "AstroParams_defaults False"
  let ?ic = "\<lparr> user_params = one_cell, cosmo_params = seeded, filled = True, attrs = [] \<rparr>"
  let ?pf = "\<lparr> user_params = one_cell, cosmo_params = seeded, filled = True, attrs = [],
                redshift = 7 \<rparr>"
  note t = cache_miss_is_caught [where env = list_cache and w = ?e and direc = None
      and fname = None and ms = False and wr = True and up = one_cell and cp = seeded
      and init_boxes = "Some ?ic" and up_arg = None and cp_arg = None and z = 7
      and redshift_arg = None and perturbed_field = "Some ?pf" and ap = ?ap
      and fo = FlagOptions_defaults and do_spin_temp = False and regenerate = False]

  obtain ic0 where ic0: "InitialConditions_new (np_limits list_cache) one_cell seeded = Inr ic0"
    by (simp add: new_defs)
  have "read_InitialConditions list_cache (disk ?e) ic0 None None False = Inl IOError"
    by (simp add: list_cache_def)
  with ic0 t have 1: "\<exists>b w'. initial_conditions list_cache one_cell seeded False True None None False ?e
      = (Inr b, w') \<and> filled b \<and> Call_ComputeInitialConditions one_cell seeded ic0 \<in> set (trace w')"
    by blast

  obtain pf0 where pf0: "PerturbedField_new (np_limits list_cache) one_cell seeded 7 = Inr pf0"
    by (simp add: new_defs)
  have "perturb_field_init_boxes list_cache (Some ?ic) (perturb_field_user_params (Some ?ic) None)
      (perturb_field_cosmo_params list_cache (Some ?ic) None) False True None None ?e = (Inr ?ic, ?e)"
    by (simp add: perturb_field_init_boxes_def)
  moreover have "PerturbedField_new (np_limits list_cache) (perturb_field_user_params (Some ?ic) None)
      (perturb_field_cosmo_params list_cache (Some ?ic) None) 7 = Inr pf0"
    using pf0 by (simp add: perturb_field_user_params_def perturb_field_cosmo_params_def)
  moreover have "read_PerturbedField list_cache (disk ?e) pf0 None None False = Inl IOError"
    by (simp add: list_cache_def)
  ultimately have 2: "\<exists>b w'. perturb_field list_cache 7 (Some ?ic) None None False True None None
      False ?e = (Inr b, w') \<and> filled b \<and> Call_ComputePerturbField 7 ?ic pf0 \<in> set (trace w')"
    using t by blast

  obtain ib0 where ib0: "IonizedBox_new (np_limits list_cache) IonizedBox_class one_cell seeded 7 ?ap FlagOptions_defaults
      = Inr ib0"
    by (simp add: new_defs)
  have "ionize_box_redshift None (Some ?pf) = Inr 7"
    by (simp add: ionize_box_redshift_def)
  moreover have "ionize_box_perturbed_field list_cache 7 (Some ?pf) (Some ?ic) None None False True
      None None False ?e = (Inr ?pf, ?e)"
    by (simp add: ionize_box_perturbed_field_def)
  moreover have "IonizedBox_new (np_limits list_cache) (if \<not> False then IonizedBox_class else TsBox_class)
      (user_params ?pf) (cosmo_params ?pf) 7 ?ap FlagOptions_defaults = Inr ib0"
    using ib0 by simp
  moreover have "read_IonizedBox list_cache (disk ?e) ib0 None None False = Inl IOError"
    by (simp add: list_cache_def)
  ultimately have 3: "\<exists>b w'. ionize_box list_cache ?ap FlagOptions_defaults None (Some ?pf)
      (Some ?ic) None None False True None None False False ?e = (Inr b, w') \<and> filled b
      \<and> (if \<not> False then Call_ComputeIonizedBox 7 ?pf ib0 else Call_ComputeTsBox 7 ?pf ib0)
          \<in> set (trace w')"
    using t by blast
  from t have 4: "fst (ionize_box list_cache ?ap FlagOptions_defaults None (Some ?pf)
      (Some ?ic) None None False True None None False False ?e) \<noteq> Inl IOError"
    by blast
  from 3 have ib: "\<exists>b w'. ionize_box list_cache ?ap FlagOptions_defaults None (Some ?pf)
      (Some ?ic) None None False True None None False False ?e = (Inr b, w') \<and> filled b
      \<and> Call_ComputeIonizedBox 7 ?pf ib0 \<in> set (trace w')"
    by simp
  from ic0 1 have "\<exists>boxes b w'. InitialConditions_new (np_limits list_cache) one_cell seeded = Inr boxes
      \<and> initial_conditions list_cache one_cell seeded False True None None False ?e = (Inr b, w')
      \<and> filled b \<and> Call_ComputeInitialConditions one_cell seeded boxes \<in> set (trace w')"
    by blast
  moreover from pf0 2 have "\<exists>pfield b w'. PerturbedField_new (np_limits list_cache) one_cell seeded 7 = Inr pfield
      \<and> perturb_field list_cache 7 (Some ?ic) None None False True None None False ?e = (Inr b, w')
      \<and> filled b \<and> Call_ComputePerturbField 7 ?ic pfield \<in> set (trace w')"
    by blast
  moreover from ib0 ib have "\<exists>box b w'. IonizedBox_new (np_limits list_cache) IonizedBox_class one_cell seeded 7 ?ap
          FlagOptions_defaults = Inr box
      \<and> ionize_box list_cache ?ap FlagOptions_defaults None (Some ?pf) (Some ?ic) None None
            False True None None False False ?e = (Inr b, w')
      \<and> filled b \<and> Call_ComputeIonizedBox 7 ?pf box \<in> set (trace w')"
    by blast
  ultimately show ?thesis
    using 4 by (intro conjI)
qed

subsection \<open>Each stage feeds the next\<close>









subsection \<open>The redshift of ionize_box\<close>










end
